theory Spec2Isabelle
  imports Complex_Main "HOL-Library.Sublist"
begin

section \<open>Recipe API: authentication and ownership\<close>

text \<open>
  The repository holds several variants of one recipe service.  This theory embeds
  \<^item> the serverless main handler \<^verbatim>\<open>api/index.js\<close> (MongoDB through Mongoose),
  \<^item> the Express application over MongoDB (its \<^verbatim>\<open>authenticateToken\<close>, PUT and DELETE routes),
  \<^item> the Express application that keeps \<^verbatim>\<open>users\<close> and \<^verbatim>\<open>recipes\<close> in two arrays,
  \<^item> the single-function handlers \<^verbatim>\<open>api/recipes.js\<close>, \<^verbatim>\<open>api/auth-login.js\<close> and the
    register handler that goes with them.

  Library calls are not code of the repository.  \<^verbatim>\<open>jwt.sign\<close>, \<^verbatim>\<open>jwt.verify\<close>,
  \<^verbatim>\<open>bcrypt.hash\<close>, \<^verbatim>\<open>bcrypt.compare\<close>, \<^verbatim>\<open>ObjectId.isValid\<close>, the cast of a string to
  an ObjectId and the way Mongoose applies an update document to a stored document are
  fields of an environment record, so every theorem holds for any behaviour of them.  A
  Mongoose collection is a list of documents typed by the schema; the queries the handlers
  use are written out below.  A request carries its body twice: the fields the handlers
  destructure, typed by the schema (a field that is absent is \<open>None\<close>), and the body as
  the JSON value it is, which the update routes hand to Mongoose whole.  A database
  connection that fails is not modelled, and string length counts characters of the ASCII
  range.
\<close>

subsection \<open>JavaScript helpers\<close>

text \<open>\<^verbatim>\<open>s.split(c)\<close> for a one-character separator: never returns the empty array.\<close>

fun split_on :: "char \<Rightarrow> string \<Rightarrow> string list" where
  "split_on c [] = [[]]"
| "split_on c (x # xs) =
     (if x = c then [] # split_on c xs
      else (case split_on c xs of
              [] \<Rightarrow> [[x]]
            | w # ws \<Rightarrow> (x # w) # ws))"

text \<open>\<^verbatim>\<open>xs[i]\<close>: \<^verbatim>\<open>undefined\<close> (here \<open>None\<close>) out of range.\<close>

fun nth_opt :: "'a list \<Rightarrow> nat \<Rightarrow> 'a option" where
  "nth_opt [] i = None"
| "nth_opt (x # xs) 0 = Some x"
| "nth_opt (x # xs) (Suc i) = nth_opt xs i"

text \<open>Truthiness of a value that is a string or \<^verbatim>\<open>undefined\<close>: \<^verbatim>\<open>!s\<close> is \<open>\<not> truthy s\<close>.\<close>

definition truthy :: "string option \<Rightarrow> bool" where
  "truthy s = (case s of None \<Rightarrow> False | Some t \<Rightarrow> t \<noteq> [])"

text \<open>\<^verbatim>\<open>authHeader && authHeader.split(' ')[1]\<close>.\<close>

definition bearer_token :: "string option \<Rightarrow> string option" where
  "bearer_token authHeader =
     (case authHeader of
        None \<Rightarrow> None
      | Some h \<Rightarrow> if h = [] then Some [] else nth_opt (split_on CHR '' '' h) 1)"

text \<open>\<^verbatim>\<open>parseInt(q) || dflt\<close>, on the result of \<^verbatim>\<open>parseInt\<close> (\<open>None\<close> is \<^verbatim>\<open>NaN\<close>).\<close>

definition or_default :: "int option \<Rightarrow> int \<Rightarrow> int" where
  "or_default q dflt = (case q of None \<Rightarrow> dflt | Some n \<Rightarrow> if n = 0 then dflt else n)"

text \<open>\<^verbatim>\<open>Math.ceil(a / b)\<close> on integers, for \<open>b \<noteq> 0\<close>.\<close>

definition ceil_div :: "int \<Rightarrow> int \<Rightarrow> int" where
  "ceil_div a b = - ((- a) div b)"

text \<open>JSON values; an object is the list of its properties in insertion order.\<close>

datatype jsval =
    Undefined
  | Null
  | Bool bool
  | Num int
  | Str string
  | Arr "jsval list"
  | Obj "(string \<times> jsval) list"

type_synonym jsobj = "(string \<times> jsval) list"

text \<open>A thrown error: its \<^verbatim>\<open>name\<close> and its \<^verbatim>\<open>message\<close>.\<close>

type_synonym js_error = "string \<times> string"

subsection \<open>Schemas, requests and responses\<close>

text \<open>An ObjectId, written as \<^verbatim>\<open>toString()\<close> prints it (24 lower-case hex digits).  A string
  that comes with a request is no ObjectId yet: Mongoose casts it (\<open>oid_cast\<close> below).\<close>

type_synonym oid = string

text \<open>\<^verbatim>\<open>UserSchema\<close> and \<^verbatim>\<open>RecipeSchema\<close>; \<^verbatim>\<open>createdBy\<close> is not a required field.\<close>

record user_doc =
  u_id :: oid
  u_username :: string
  u_password :: string

record recipe_doc =
  r_id :: oid
  title :: string
  ingredients :: "string list"
  instructions :: string
  cookingTime :: "int option"
  servings :: "int option"
  createdBy :: "oid option"
  createdAt :: nat

record db =
  users :: "user_doc list"
  recipes :: "recipe_doc list"

text \<open>The payload of a verified token: the handlers read \<^verbatim>\<open>userId\<close>, \<^verbatim>\<open>id\<close> or \<^verbatim>\<open>username\<close>.\<close>

record jwt_payload =
  p_userId :: "string option"
  p_id :: "string option"
  p_username :: "string option"

text \<open>What the register, login and create routes destructure from \<^verbatim>\<open>req.body\<close>: each
  field where the body has it with a value of the schema's type.  \<^verbatim>\<open>createdBy\<close> and
  \<^verbatim>\<open>createdAt\<close> are fields a client may add; no route destructures them.\<close>

record body =
  b_username :: "string option"
  b_password :: "string option"
  b_title :: "string option"
  b_ingredients :: "string list option"
  b_instructions :: "string option"
  b_cookingTime :: "int option"
  b_servings :: "int option"
  b_createdBy :: "string option"
  b_createdAt :: "nat option"

text \<open>A request.  \<open>req_body\<close> is the destructured view of the body, \<open>raw_body\<close> the body
  as the JSON value it is: the update routes pass it to \<^verbatim>\<open>findByIdAndUpdate\<close> whole, so
  update operators (\<^verbatim>\<open>$set\<close>, \<^verbatim>\<open>$unset\<close>, \<^verbatim>\<open>$rename\<close>) and values of any type reach
  Mongoose.\<close>

record request =
  req_method :: string
  urlPath :: string
  authorization :: "string option"
  q_page :: "int option"
  q_limit :: "int option"
  req_body :: body
  raw_body :: jsval

text \<open>What the libraries and the clock give one request.  \<open>oid_cast\<close> is the cast of a
  string to an ObjectId (\<open>None\<close>: a \<^verbatim>\<open>CastError\<close>).  \<open>update_doc\<close> is what Mongoose and
  MongoDB make of an update document for one stored document: the document after the
  update, or the error thrown (a \<^verbatim>\<open>CastError\<close> for a value that does not fit the schema).\<close>

record env =
  jwt_verify :: "string \<Rightarrow> jwt_payload option"
  jwt_sign :: "jwt_payload \<Rightarrow> string"
  bcrypt_hash :: "string \<Rightarrow> nat \<Rightarrow> string"
  bcrypt_compare :: "string \<Rightarrow> string \<Rightarrow> bool"
  oid_valid :: "string \<Rightarrow> bool"
  oid_cast :: "string \<Rightarrow> oid option"
  update_doc :: "jsval \<Rightarrow> recipe_doc \<Rightarrow> js_error + recipe_doc"
  new_id :: oid
  now :: nat

text \<open>A recipe after \<^verbatim>\<open>populate('createdBy', 'username')\<close>: the owner's id and username,
  or \<^verbatim>\<open>null\<close>.\<close>

type_synonym populated = "recipe_doc \<times> (string \<times> string) option"

datatype payload =
    JEnd
  | JWelcome
  | JHealth
  | JError string
  | JInternal
  | JMessage string
  | JRegistered string string
  | JToken string
  | JLogin string string string string
  | JRecipes "populated list" int int int int
  | JRecipeMsg string "recipe_doc option"
  | JRecipe populated

record response =
  status :: nat
  payload :: payload

definition reply :: "nat \<Rightarrow> payload \<Rightarrow> response" where
  "reply s p = \<lparr>status = s, payload = p\<rparr>"

subsection \<open>Mongoose queries\<close>

definition findOne_username :: "string \<Rightarrow> user_doc list \<Rightarrow> user_doc option" where
  "findOne_username name us = find (\<lambda>u. u_username u = name) us"

text \<open>The \<^verbatim>\<open>CastError\<close> for a value that is no ObjectId.\<close>

definition cast_error :: "string \<Rightarrow> js_error" where
  "cast_error v = (''CastError'', ''Cast to ObjectId failed for value '' @ v)"

text \<open>\<^verbatim>\<open>findById(id)\<close>: the id is cast, then compared with the stored ObjectIds.\<close>

definition findById :: "env \<Rightarrow> string \<Rightarrow> recipe_doc list \<Rightarrow> js_error + recipe_doc option" where
  "findById e i rs =
     (case oid_cast e i of
        None \<Rightarrow> Inl (cast_error i)
      | Some ob \<Rightarrow> Inr (find (\<lambda>r. r_id r = ob) rs))"

definition populate :: "user_doc list \<Rightarrow> recipe_doc \<Rightarrow> populated" where
  "populate us r =
     (r, case createdBy r of
           None \<Rightarrow> None
         | Some c \<Rightarrow> map_option (\<lambda>u. (u_id u, u_username u)) (find (\<lambda>u. u_id u = c) us))"

text \<open>The first document with the ObjectId is replaced, or removed.\<close>

fun replace_first :: "oid \<Rightarrow> recipe_doc \<Rightarrow> recipe_doc list \<Rightarrow> recipe_doc list" where
  "replace_first ob r' [] = []"
| "replace_first ob r' (r # rs) = (if r_id r = ob then r' # rs else r # replace_first ob r' rs)"

fun remove_first :: "oid \<Rightarrow> recipe_doc list \<Rightarrow> recipe_doc list" where
  "remove_first ob [] = []"
| "remove_first ob (r # rs) = (if r_id r = ob then rs else r # remove_first ob rs)"

text \<open>\<^verbatim>\<open>findByIdAndUpdate(id, update, {new: true})\<close>: the id is cast, the update document
  goes to Mongoose as it is, and the document after the update is stored and returned;
  \<^verbatim>\<open>_id\<close> is immutable.  An error of the cast or of the update is thrown and nothing is
  written.\<close>

definition findByIdAndUpdate ::
  "env \<Rightarrow> string \<Rightarrow> jsval \<Rightarrow> recipe_doc list
     \<Rightarrow> js_error + recipe_doc list \<times> recipe_doc option" where
  "findByIdAndUpdate e i upd rs =
     (case oid_cast e i of
        None \<Rightarrow> Inl (cast_error i)
      | Some ob \<Rightarrow>
          (case find (\<lambda>r. r_id r = ob) rs of
             None \<Rightarrow> Inr (rs, None)
           | Some r \<Rightarrow>
               (case update_doc e upd r of
                  Inl err \<Rightarrow> Inl err
                | Inr r' \<Rightarrow>
                    Inr (replace_first ob (r'\<lparr>r_id := ob\<rparr>) rs, Some (r'\<lparr>r_id := ob\<rparr>)))))"

definition findByIdAndDelete :: "env \<Rightarrow> string \<Rightarrow> recipe_doc list \<Rightarrow> js_error + recipe_doc list" where
  "findByIdAndDelete e i rs =
     (case oid_cast e i of
        None \<Rightarrow> Inl (cast_error i)
      | Some ob \<Rightarrow> Inr (remove_first ob rs))"

text \<open>A reference given as a string is cast when the document is built; a value that
  does not cast makes \<^verbatim>\<open>save()\<close> throw a \<^verbatim>\<open>ValidationError\<close>.\<close>

definition cast_ref :: "env \<Rightarrow> string option \<Rightarrow> js_error + oid option" where
  "cast_ref e v =
     (case v of
        None \<Rightarrow> Inr None
      | Some s \<Rightarrow>
          (case oid_cast e s of
             None \<Rightarrow> Inl (''ValidationError'', ''Recipe validation failed: createdBy'')
           | Some ob \<Rightarrow> Inr (Some ob)))"

text \<open>\<^verbatim>\<open>find().sort({createdAt: -1})\<close>.\<close>

definition sort_desc :: "recipe_doc list \<Rightarrow> recipe_doc list" where
  "sort_desc rs = sort_key (\<lambda>r. - int (createdAt r)) rs"

text \<open>\<^verbatim>\<open>.skip(skip).limit(limit)\<close>: the server refuses a negative skip (\<open>None\<close>), and the
  driver sends the absolute value of a negative limit.\<close>

definition skip_limit :: "int \<Rightarrow> int \<Rightarrow> 'a list \<Rightarrow> 'a list option" where
  "skip_limit skip limit xs =
     (if skip < 0 then None else Some (take (nat \<bar>limit\<bar>) (drop (nat skip) xs)))"

subsection \<open>The serverless main handler\<close>

text \<open>\<^verbatim>\<open>authenticateToken(req)\<close> throws an \<^verbatim>\<open>Error\<close> with a message (\<open>Inl\<close>) or returns the
  payload.\<close>

definition authenticateToken :: "env \<Rightarrow> request \<Rightarrow> string + jwt_payload" where
  "authenticateToken e req =
     (case bearer_token (authorization req) of
        None \<Rightarrow> Inl ''Access token required''
      | Some token \<Rightarrow>
          if token = [] then Inl ''Access token required''
          else (case jwt_verify e token of
                  None \<Rightarrow> Inl ''Invalid token''
                | Some user \<Rightarrow> Inr user))"

text \<open>The \<^verbatim>\<open>catch\<close> block of the handler, for an error with the given message.\<close>

definition on_error :: "string \<Rightarrow> response" where
  "on_error msg =
     (if msg = ''Access token required'' \<or> msg = ''Invalid token''
      then reply 401 (JError msg)
      else reply 500 JInternal)"

definition register :: "env \<Rightarrow> db \<Rightarrow> request \<Rightarrow> db \<times> response" where
  "register e d req =
     (case (b_username (req_body req), b_password (req_body req)) of
        (Some username, Some password) \<Rightarrow>
          if username = [] \<or> password = []
          then (d, reply 400 (JError ''Username and password are required''))
          else if length password < 6
          then (d, reply 400 (JError ''Password must be at least 6 characters''))
          else (case findOne_username username (users d) of
                  Some existingUser \<Rightarrow> (d, reply 400 (JError ''Username already exists''))
                | None \<Rightarrow>
                    let hashedPassword = bcrypt_hash e password 12;
                        user = \<lparr>u_id = new_id e, u_username = username,
                                u_password = hashedPassword\<rparr>
                    in (d\<lparr>users := users d @ [user]\<rparr>,
                        reply 201 (JRegistered ''User registered successfully'' (u_id user))))
      | _ \<Rightarrow> (d, reply 400 (JError ''Username and password are required'')))"

definition login :: "env \<Rightarrow> db \<Rightarrow> request \<Rightarrow> db \<times> response" where
  "login e d req =
     (case (b_username (req_body req), b_password (req_body req)) of
        (Some username, Some password) \<Rightarrow>
          if username = [] \<or> password = []
          then (d, reply 400 (JError ''Username and password are required''))
          else (case findOne_username username (users d) of
                  None \<Rightarrow> (d, reply 401 (JError ''Invalid credentials''))
                | Some user \<Rightarrow>
                    if \<not> bcrypt_compare e password (u_password user)
                    then (d, reply 401 (JError ''Invalid credentials''))
                    else
                      let token = jwt_sign e \<lparr>p_userId = Some (u_id user), p_id = None,
                                              p_username = Some (u_username user)\<rparr>
                      in (d, reply 200 (JLogin token ''Login successful''
                                          (u_id user) (u_username user))))
      | _ \<Rightarrow> (d, reply 400 (JError ''Username and password are required'')))"

definition getRecipes :: "env \<Rightarrow> db \<Rightarrow> request \<Rightarrow> db \<times> response" where
  "getRecipes e d req =
     (let page = or_default (q_page req) 1;
          limit = or_default (q_limit req) 10;
          skip = (page - 1) * limit;
          total = int (length (recipes d))
      in case skip_limit skip limit (map (populate (users d)) (sort_desc (recipes d))) of
           None \<Rightarrow> (d, on_error ''MongoServerError'')
         | Some rs \<Rightarrow> (d, reply 200 (JRecipes rs page limit total (ceil_div total limit))))"

definition createRecipe :: "env \<Rightarrow> db \<Rightarrow> request \<Rightarrow> db \<times> response" where
  "createRecipe e d req =
     (case authenticateToken e req of
        Inl msg \<Rightarrow> (d, on_error msg)
      | Inr user \<Rightarrow>
          if \<not> truthy (b_title (req_body req)) \<or> \<not> truthy (b_instructions (req_body req))
          then (d, reply 400 (JError ''Title and instructions are required''))
          else
            (case cast_ref e (p_userId user) of
               Inl err \<Rightarrow> (d, on_error (snd err))
             | Inr owner \<Rightarrow>
                 let recipe = \<lparr>r_id = new_id e,
                               title = (case b_title (req_body req) of
                                          None \<Rightarrow> [] | Some t \<Rightarrow> t),
                               ingredients = (case b_ingredients (req_body req) of
                                                None \<Rightarrow> [] | Some xs \<Rightarrow> xs),
                               instructions = (case b_instructions (req_body req) of
                                                 None \<Rightarrow> [] | Some t \<Rightarrow> t),
                               cookingTime = b_cookingTime (req_body req),
                               servings = b_servings (req_body req),
                               createdBy = owner,
                               createdAt = now e\<rparr>
                 in (d\<lparr>recipes := recipes d @ [recipe]\<rparr>,
                     reply 201 (JRecipeMsg ''Recipe created successfully'' (Some recipe)))))"

text \<open>\<^verbatim>\<open>urlPath.split('/')[3]\<close>.\<close>

definition path_id :: "string \<Rightarrow> string option" where
  "path_id p = nth_opt (split_on CHR ''/'' p) 3"

definition getRecipe :: "env \<Rightarrow> db \<Rightarrow> request \<Rightarrow> db \<times> response" where
  "getRecipe e d req =
     (case path_id (urlPath req) of
        None \<Rightarrow> (d, reply 400 (JError ''Invalid recipe ID''))
      | Some i \<Rightarrow>
          if \<not> oid_valid e i then (d, reply 400 (JError ''Invalid recipe ID''))
          else (case findById e i (recipes d) of
                  Inl err \<Rightarrow> (d, on_error (snd err))
                | Inr None \<Rightarrow> (d, reply 404 (JError ''Recipe not found''))
                | Inr (Some recipe) \<Rightarrow> (d, reply 200 (JRecipe (populate (users d) recipe)))))"

text \<open>\<^verbatim>\<open>recipe.createdBy.toString() !== user.userId\<close>: a \<^verbatim>\<open>TypeError\<close> (\<open>None\<close>) when the
  document has no \<^verbatim>\<open>createdBy\<close>.\<close>

definition not_owner :: "recipe_doc \<Rightarrow> jwt_payload \<Rightarrow> bool option" where
  "not_owner recipe user =
     (case createdBy recipe of
        None \<Rightarrow> None
      | Some c \<Rightarrow> Some (Some c \<noteq> p_userId user))"

definition updateRecipe :: "env \<Rightarrow> db \<Rightarrow> request \<Rightarrow> db \<times> response" where
  "updateRecipe e d req =
     (case authenticateToken e req of
        Inl msg \<Rightarrow> (d, on_error msg)
      | Inr user \<Rightarrow>
          (case path_id (urlPath req) of
             None \<Rightarrow> (d, reply 400 (JError ''Invalid recipe ID''))
           | Some i \<Rightarrow>
               if \<not> oid_valid e i then (d, reply 400 (JError ''Invalid recipe ID''))
               else (case findById e i (recipes d) of
                       Inl err \<Rightarrow> (d, on_error (snd err))
                     | Inr None \<Rightarrow> (d, reply 404 (JError ''Recipe not found''))
                     | Inr (Some recipe) \<Rightarrow>
                         (case not_owner recipe user of
                            None \<Rightarrow> (d, on_error ''TypeError'')
                          | Some True \<Rightarrow> (d, reply 403 (JError ''Not authorized''))
                          | Some False \<Rightarrow>
                              (case findByIdAndUpdate e i (raw_body req) (recipes d) of
                                 Inl err \<Rightarrow> (d, on_error (snd err))
                               | Inr (rs, updatedRecipe) \<Rightarrow>
                                   (d\<lparr>recipes := rs\<rparr>,
                                    reply 200 (JRecipeMsg ''Recipe updated successfully''
                                                 updatedRecipe)))))))"

definition deleteRecipe :: "env \<Rightarrow> db \<Rightarrow> request \<Rightarrow> db \<times> response" where
  "deleteRecipe e d req =
     (case authenticateToken e req of
        Inl msg \<Rightarrow> (d, on_error msg)
      | Inr user \<Rightarrow>
          (case path_id (urlPath req) of
             None \<Rightarrow> (d, reply 400 (JError ''Invalid recipe ID''))
           | Some i \<Rightarrow>
               if \<not> oid_valid e i then (d, reply 400 (JError ''Invalid recipe ID''))
               else (case findById e i (recipes d) of
                       Inl err \<Rightarrow> (d, on_error (snd err))
                     | Inr None \<Rightarrow> (d, reply 404 (JError ''Recipe not found''))
                     | Inr (Some recipe) \<Rightarrow>
                         (case not_owner recipe user of
                            None \<Rightarrow> (d, on_error ''TypeError'')
                          | Some True \<Rightarrow> (d, reply 403 (JError ''Not authorized''))
                          | Some False \<Rightarrow>
                              (case findByIdAndDelete e i (recipes d) of
                                 Inl err \<Rightarrow> (d, on_error (snd err))
                               | Inr rs \<Rightarrow>
                                   (d\<lparr>recipes := rs\<rparr>,
                                    reply 200 (JMessage ''Recipe deleted successfully'')))))))"

definition handler :: "env \<Rightarrow> db \<Rightarrow> request \<Rightarrow> db \<times> response" where
  "handler e d req =
     (if req_method req = ''OPTIONS'' then (d, reply 200 JEnd)
      else if req_method req = ''GET'' \<and> urlPath req = ''/'' then (d, reply 200 JWelcome)
      else if req_method req = ''GET'' \<and> urlPath req = ''/api/health'' then (d, reply 200 JHealth)
      else if req_method req = ''POST'' \<and> urlPath req = ''/api/auth/register'' then register e d req
      else if req_method req = ''POST'' \<and> urlPath req = ''/api/auth/login'' then login e d req
      else if req_method req = ''GET'' \<and> urlPath req = ''/api/recipes'' then getRecipes e d req
      else if req_method req = ''POST'' \<and> urlPath req = ''/api/recipes'' then createRecipe e d req
      else if req_method req = ''GET'' \<and> prefix ''/api/recipes/'' (urlPath req)
        then getRecipe e d req
      else if req_method req = ''PUT'' \<and> prefix ''/api/recipes/'' (urlPath req)
        then updateRecipe e d req
      else if req_method req = ''DELETE'' \<and> prefix ''/api/recipes/'' (urlPath req)
        then deleteRecipe e d req
      else (d, reply 404 (JError ''Route not found'')))"

subsection \<open>The Express application over MongoDB\<close>

text \<open>\<^verbatim>\<open>authenticateToken(req, res, next)\<close>: the middleware answers by itself or calls
  \<^verbatim>\<open>next()\<close> with \<^verbatim>\<open>req.user\<close> set.\<close>

definition authenticateToken_express ::
  "env \<Rightarrow> request \<Rightarrow> (jwt_payload \<Rightarrow> 's \<Rightarrow> 's \<times> response) \<Rightarrow> 's \<Rightarrow> 's \<times> response" where
  "authenticateToken_express e req next d =
     (case bearer_token (authorization req) of
        None \<Rightarrow> (d, reply 401 (JError ''Access token required''))
      | Some token \<Rightarrow>
          if token = [] then (d, reply 401 (JError ''Access token required''))
          else (case jwt_verify e token of
                  None \<Rightarrow> (d, reply 403 (JError ''Invalid token''))
                | Some user \<Rightarrow> next user d))"

text \<open>The route callbacks, with \<^verbatim>\<open>req.params.id\<close> as \<open>i\<close>.  The \<^verbatim>\<open>catch\<close> block answers
  an error named \<^verbatim>\<open>CastError\<close> with 400 and any other with 500.\<close>

definition on_error_express :: "js_error \<Rightarrow> response" where
  "on_error_express err =
     (if fst err = ''CastError'' then reply 400 (JError ''Invalid recipe ID'')
      else reply 500 (JError ''Internal server error''))"

definition put_recipe :: "env \<Rightarrow> request \<Rightarrow> string \<Rightarrow> jwt_payload \<Rightarrow> db \<Rightarrow> db \<times> response" where
  "put_recipe e req i user d =
     (case findById e i (recipes d) of
        Inl err \<Rightarrow> (d, on_error_express err)
      | Inr None \<Rightarrow> (d, reply 404 (JError ''Recipe not found''))
      | Inr (Some recipe) \<Rightarrow>
          (case not_owner recipe user of
             None \<Rightarrow> (d, on_error_express (''TypeError'', ''TypeError''))
           | Some True \<Rightarrow> (d, reply 403 (JError ''Not authorized to update this recipe''))
           | Some False \<Rightarrow>
               (case findByIdAndUpdate e i (raw_body req) (recipes d) of
                  Inl err \<Rightarrow> (d, on_error_express err)
                | Inr (rs, updatedRecipe) \<Rightarrow>
                    (d\<lparr>recipes := rs\<rparr>,
                     reply 200 (JRecipeMsg ''Recipe updated successfully'' updatedRecipe)))))"

definition delete_recipe :: "env \<Rightarrow> request \<Rightarrow> string \<Rightarrow> jwt_payload \<Rightarrow> db \<Rightarrow> db \<times> response" where
  "delete_recipe e req i user d =
     (case findById e i (recipes d) of
        Inl err \<Rightarrow> (d, on_error_express err)
      | Inr None \<Rightarrow> (d, reply 404 (JError ''Recipe not found''))
      | Inr (Some recipe) \<Rightarrow>
          (case not_owner recipe user of
             None \<Rightarrow> (d, on_error_express (''TypeError'', ''TypeError''))
           | Some True \<Rightarrow> (d, reply 403 (JError ''Not authorized to delete this recipe''))
           | Some False \<Rightarrow>
               (case findByIdAndDelete e i (recipes d) of
                  Inl err \<Rightarrow> (d, on_error_express err)
                | Inr rs \<Rightarrow>
                    (d\<lparr>recipes := rs\<rparr>,
                     reply 200 (JMessage ''Recipe deleted successfully'')))))"

definition app_put_recipes_id :: "env \<Rightarrow> request \<Rightarrow> string \<Rightarrow> db \<Rightarrow> db \<times> response" where
  "app_put_recipes_id e req i d = authenticateToken_express e req (put_recipe e req i) d"

definition app_delete_recipes_id :: "env \<Rightarrow> request \<Rightarrow> string \<Rightarrow> db \<Rightarrow> db \<times> response" where
  "app_delete_recipes_id e req i d = authenticateToken_express e req (delete_recipe e req i) d"

subsection \<open>The Express application with in-memory arrays\<close>

text \<open>Nothing validates a request body here, so bodies, users, recipes and token payloads
  are JSON objects: lists of properties in insertion order.\<close>

text \<open>\<^verbatim>\<open>o.k\<close>.\<close>

definition get_prop :: "jsobj \<Rightarrow> string \<Rightarrow> jsval" where
  "get_prop ob k = (case map_of ob k of None \<Rightarrow> Undefined | Some v \<Rightarrow> v)"

text \<open>\<^verbatim>\<open>a === b\<close>.  Arrays and objects are compared by reference, and the two sides never
  share one: they come from the bodies and tokens of different requests.\<close>

fun strict_eq :: "jsval \<Rightarrow> jsval \<Rightarrow> bool" where
  "strict_eq Undefined Undefined = True"
| "strict_eq Null Null = True"
| "strict_eq (Bool a) (Bool b) = (a = b)"
| "strict_eq (Num a) (Num b) = (a = b)"
| "strict_eq (Str a) (Str b) = (a = b)"
| "strict_eq a b = False"

text \<open>\<^verbatim>\<open>o[k] = v\<close> on an object literal under construction, and \<^verbatim>\<open>{...a, ...b}\<close>.\<close>

fun set_prop :: "string \<Rightarrow> jsval \<Rightarrow> jsobj \<Rightarrow> jsobj" where
  "set_prop k v [] = [(k, v)]"
| "set_prop k v (p # ps) = (if fst p = k then (k, v) # ps else p # set_prop k v ps)"

definition spread :: "jsobj \<Rightarrow> jsobj \<Rightarrow> jsobj" where
  "spread a b = fold (\<lambda>(k, v). set_prop k v) b a"

text \<open>\<^verbatim>\<open>xs.findIndex(p)\<close>, with \<open>None\<close> for \<^verbatim>\<open>-1\<close>.\<close>

fun findIndex :: "('a \<Rightarrow> bool) \<Rightarrow> 'a list \<Rightarrow> nat option" where
  "findIndex p [] = None"
| "findIndex p (x # xs) = (if p x then Some 0 else map_option Suc (findIndex p xs))"

text \<open>\<^verbatim>\<open>xs.splice(i, 1)\<close>.\<close>

definition splice1 :: "nat \<Rightarrow> 'a list \<Rightarrow> 'a list" where
  "splice1 i xs = take i xs @ drop (Suc i) xs"

record mem =
  m_users :: "jsobj list"
  m_recipes :: "jsobj list"

record menv =
  m_verify :: "string \<Rightarrow> jsobj option"
  m_sign :: "jsobj \<Rightarrow> string"
  m_now :: string

datatype mpayload = MError string | MToken string | MJson jsval | MMessage string | MEmpty

type_synonym mresponse = "nat \<times> mpayload"

definition generateToken :: "menv \<Rightarrow> jsobj \<Rightarrow> string" where
  "generateToken e pl = m_sign e pl"

definition authenticateToken_mem ::
  "menv \<Rightarrow> string option \<Rightarrow> (jsobj \<Rightarrow> mem \<Rightarrow> mem \<times> mresponse) \<Rightarrow> mem \<Rightarrow> mem \<times> mresponse" where
  "authenticateToken_mem e authHeader next s =
     (case bearer_token authHeader of
        None \<Rightarrow> (s, (401, MError ''No token provided''))
      | Some token \<Rightarrow>
          if token = [] then (s, (401, MError ''No token provided''))
          else (case m_verify e token of
                  None \<Rightarrow> (s, (403, MError ''Invalid token''))
                | Some user \<Rightarrow> next user s))"

definition mem_register :: "menv \<Rightarrow> jsobj \<Rightarrow> mem \<Rightarrow> mem \<times> mresponse" where
  "mem_register e b s =
     (let username = get_prop b ''username''; password = get_prop b ''password''
      in case find (\<lambda>u. strict_eq (get_prop u ''username'') username) (m_users s) of
           Some u \<Rightarrow> (s, (400, MError ''Username already exists''))
         | None \<Rightarrow>
             (s\<lparr>m_users := m_users s @ [[(''username'', username), (''password'', password)]]\<rparr>,
              (201, MToken (generateToken e [(''username'', username)]))))"

definition mem_login :: "menv \<Rightarrow> jsobj \<Rightarrow> mem \<Rightarrow> mem \<times> mresponse" where
  "mem_login e b s =
     (let username = get_prop b ''username''; password = get_prop b ''password''
      in case find (\<lambda>u. strict_eq (get_prop u ''username'') username
                         \<and> strict_eq (get_prop u ''password'') password) (m_users s) of
           None \<Rightarrow> (s, (401, MError ''Invalid credentials''))
         | Some user \<Rightarrow> (s, (200, MToken (generateToken e [(''username'', username)]))))"

definition mem_post_recipe :: "menv \<Rightarrow> jsobj \<Rightarrow> jsobj \<Rightarrow> mem \<Rightarrow> mem \<times> mresponse" where
  "mem_post_recipe e b user s =
     (let newRecipe = [(''id'', Str (m_now e)),
                       (''title'', get_prop b ''title''),
                       (''ingredients'', get_prop b ''ingredients''),
                       (''instructions'', get_prop b ''instructions''),
                       (''createdBy'', get_prop user ''username'')]
      in (s\<lparr>m_recipes := m_recipes s @ [newRecipe]\<rparr>, (201, MJson (Obj newRecipe))))"

definition mem_put_recipe :: "string \<Rightarrow> jsobj \<Rightarrow> jsobj \<Rightarrow> mem \<Rightarrow> mem \<times> mresponse" where
  "mem_put_recipe i b user s =
     (case findIndex (\<lambda>r. strict_eq (get_prop r ''id'') (Str i)) (m_recipes s) of
        None \<Rightarrow> (s, (404, MError ''Recipe not found''))
      | Some index \<Rightarrow>
          if \<not> strict_eq (get_prop (m_recipes s ! index) ''createdBy'') (get_prop user ''username'')
          then (s, (403, MError ''Not authorized to update this recipe''))
          else
            let r = set_prop ''id'' (Str i) (spread (m_recipes s ! index) b)
            in (s\<lparr>m_recipes := (m_recipes s)[index := r]\<rparr>, (200, MJson (Obj r))))"

definition mem_delete_recipe :: "string \<Rightarrow> jsobj \<Rightarrow> mem \<Rightarrow> mem \<times> mresponse" where
  "mem_delete_recipe i user s =
     (case findIndex (\<lambda>r. strict_eq (get_prop r ''id'') (Str i)) (m_recipes s) of
        None \<Rightarrow> (s, (404, MError ''Recipe not found''))
      | Some index \<Rightarrow>
          if \<not> strict_eq (get_prop (m_recipes s ! index) ''createdBy'') (get_prop user ''username'')
          then (s, (403, MError ''Not authorized to delete this recipe''))
          else (s\<lparr>m_recipes := splice1 index (m_recipes s)\<rparr>, (204, MEmpty)))"

definition mem_app_put :: "menv \<Rightarrow> string option \<Rightarrow> string \<Rightarrow> jsobj \<Rightarrow> mem \<Rightarrow> mem \<times> mresponse" where
  "mem_app_put e authHeader i b s = authenticateToken_mem e authHeader (mem_put_recipe i b) s"

definition mem_app_delete :: "menv \<Rightarrow> string option \<Rightarrow> string \<Rightarrow> mem \<Rightarrow> mem \<times> mresponse" where
  "mem_app_delete e authHeader i s = authenticateToken_mem e authHeader (mem_delete_recipe i) s"

subsection \<open>The single-function handlers\<close>

text \<open>\<^verbatim>\<open>utils/models/Recipe.js\<close>: no field is required.\<close>

record recipe_s =
  s_id :: string
  s_title :: "string option"
  s_ingredients :: "string list"
  s_instructions :: "string option"
  s_createdBy :: "string option"

text \<open>\<^verbatim>\<open>api/recipes.js\<close>.  The token is read from \<^verbatim>\<open>decoded.id\<close>; the theorems below use
  the GET branch with a payload that has an \<^verbatim>\<open>id\<close>.\<close>

datatype spayload = SError string | SMessage string | SRecipes "recipe_s list" | SEnd

definition recipes_handler ::
  "env \<Rightarrow> recipe_s list \<Rightarrow> request \<Rightarrow> recipe_s list \<times> nat \<times> spayload" where
  "recipes_handler e rs req =
     (case (case authorization req of None \<Rightarrow> None
                                     | Some h \<Rightarrow> nth_opt (split_on CHR '' '' h) 1) of
        None \<Rightarrow> (rs, 401, SError ''Unauthorized'')
      | Some token \<Rightarrow>
          if token = [] then (rs, 401, SError ''Unauthorized'')
          else (case jwt_verify e token of
                  None \<Rightarrow> (rs, 401, SError ''Unauthorized'')
                | Some decoded \<Rightarrow>
                    let userId = p_id decoded in
                    if req_method req = ''GET''
                    then (rs, 200, SRecipes (filter (\<lambda>r. s_createdBy r = userId) rs))
                    else if req_method req = ''POST''
                    then (rs @ [\<lparr>s_id = new_id e,
                                  s_title = b_title (req_body req),
                                  s_ingredients = (case b_ingredients (req_body req) of
                                                     None \<Rightarrow> [] | Some xs \<Rightarrow> xs),
                                  s_instructions = b_instructions (req_body req),
                                  s_createdBy = userId\<rparr>],
                          200, SMessage ''Recipe added'')
                    else (rs, 405, SEnd)))"

text \<open>\<^verbatim>\<open>api/auth-login.js\<close>, for a body that carries \<^verbatim>\<open>username\<close> and \<^verbatim>\<open>password\<close> as strings
  (without them the outcome is decided inside Mongoose and bcrypt).\<close>

definition login_handler ::
  "env \<Rightarrow> user_doc list \<Rightarrow> string \<Rightarrow> string \<Rightarrow> string \<Rightarrow> nat \<times> payload" where
  "login_handler e us meth username password =
     (if meth = ''POST''
      then (case findOne_username username us of
              None \<Rightarrow> (400, JError ''User not found'')
            | Some user \<Rightarrow>
                if \<not> bcrypt_compare e password (u_password user)
                then (401, JError ''Invalid password'')
                else (200, JToken (jwt_sign e \<lparr>p_userId = None, p_id = Some (u_id user),
                                                p_username = None\<rparr>)))
      else (405, JEnd))"

text \<open>The register handler of the same variant.\<close>

definition register_handler ::
  "env \<Rightarrow> user_doc list \<Rightarrow> string \<Rightarrow> body \<Rightarrow> user_doc list \<times> nat \<times> payload" where
  "register_handler e us meth b =
     (if meth = ''POST''
      then (case (b_username b, b_password b) of
              (Some username, Some password) \<Rightarrow>
                if username = [] \<or> password = [] then (us, 400, JError ''Missing fields'')
                else (case findOne_username username us of
                        Some existing \<Rightarrow> (us, 400, JError ''Username already exists'')
                      | None \<Rightarrow>
                          let hashed = bcrypt_hash e password 10
                          in (us @ [\<lparr>u_id = new_id e, u_username = username,
                                     u_password = hashed\<rparr>],
                              200, JMessage ''User registered''))
            | _ \<Rightarrow> (us, 400, JError ''Missing fields''))
      else (us, 405, JEnd))"

subsection \<open>Notions of the specification\<close>

text \<open>A request carries no usable token: the header is missing, has no second word, or
  its token does not verify (bad signature, malformed or expired).\<close>

definition no_valid_token :: "(string \<Rightarrow> 'a option) \<Rightarrow> string option \<Rightarrow> bool" where
  "no_valid_token verify authHeader =
     (case bearer_token authHeader of
        None \<Rightarrow> True
      | Some token \<Rightarrow> token = [] \<or> verify token = None)"

text \<open>The bearer-protected operations of the main handler: POST \<^verbatim>\<open>/api/recipes\<close>, PUT and
  DELETE \<^verbatim>\<open>/api/recipes/{id}\<close>.\<close>

definition bearer_protected :: "request \<Rightarrow> bool" where
  "bearer_protected req =
     ((req_method req = ''POST'' \<and> urlPath req = ''/api/recipes'')
      \<or> ((req_method req = ''PUT'' \<or> req_method req = ''DELETE'')
          \<and> prefix ''/api/recipes/'' (urlPath req)))"

text \<open>Page and limit, where given, are not negative (zero falls back to the default).\<close>

definition query_ok :: "request \<Rightarrow> bool" where
  "query_ok req =
     ((case q_page req of None \<Rightarrow> True | Some n \<Rightarrow> 0 \<le> n)
      \<and> (case q_limit req of None \<Rightarrow> True | Some n \<Rightarrow> 0 \<le> n))"

text \<open>Descending creation time.\<close>

definition newest_first :: "populated list \<Rightarrow> bool" where
  "newest_first rs = sorted_wrt (\<lambda>a b. createdAt (fst b) \<le> createdAt (fst a)) rs"

subsection \<open>Sample data\<close>

definition alice_id :: oid where "alice_id = ''65000000000000000000000a''"
definition bob_id :: oid where "bob_id = ''65000000000000000000000b''"
definition tea_id :: oid where "tea_id = ''65000000000000000000ab01''"

text \<open>The id of the tea recipe as a client may write it in a path.\<close>

definition tea_id_upper :: string where "tea_id_upper = ''65000000000000000000AB01''"
definition none_id :: oid where "none_id = ''650000000000000000000002''"

text \<open>A cast as the sample data needs it: 24 hex digits, upper case folded to lower.\<close>

definition sample_cast :: "string \<Rightarrow> oid option" where
  "sample_cast s =
     (if length s = 24 \<and> list_all (\<lambda>c. c \<in> set ''0123456789abcdefABCDEF'') s
      then Some (map (\<lambda>c. case map_of (zip ''ABCDEF'' ''abcdef'') c of
                               None \<Rightarrow> c | Some l \<Rightarrow> l) s)
      else None)"

text \<open>What Mongoose does with the update documents of the samples: an object with the one
  field \<^verbatim>\<open>title\<close> or \<^verbatim>\<open>createdBy\<close> sets that field, \<^verbatim>\<open>createdBy\<close> after a cast.\<close>

definition sample_update :: "jsval \<Rightarrow> recipe_doc \<Rightarrow> js_error + recipe_doc" where
  "sample_update upd r =
     (case upd of
        Obj [(k, Str v)] \<Rightarrow>
          if k = ''title'' then Inr (r\<lparr>title := v\<rparr>)
          else if k = ''createdBy''
          then (case sample_cast v of
                  None \<Rightarrow> Inl (cast_error v)
                | Some ob \<Rightarrow> Inr (r\<lparr>createdBy := Some ob\<rparr>))
          else Inr r
      | _ \<Rightarrow> Inr r)"

definition sample_env :: env where
  "sample_env =
     \<lparr>jwt_verify = (\<lambda>t. if t = ''tokA''
                          then Some \<lparr>p_userId = Some alice_id, p_id = Some alice_id,
                                     p_username = Some ''alice''\<rparr>
                          else if t = ''tokB''
                          then Some \<lparr>p_userId = Some bob_id, p_id = Some bob_id,
                                     p_username = Some ''bob''\<rparr>
                          else None),
      jwt_sign = (\<lambda>p. ''jwt''),
      bcrypt_hash = (\<lambda>p cost. ''$2a$'' @ p),
      bcrypt_compare = (\<lambda>p h. h = ''$2a$'' @ p),
      oid_valid = (\<lambda>s. sample_cast s \<noteq> None),
      oid_cast = sample_cast,
      update_doc = sample_update,
      new_id = ''650000000000000000000009'',
      now = 1000\<rparr>"

definition no_body :: body where
  "no_body = \<lparr>b_username = None, b_password = None, b_title = None, b_ingredients = None,
              b_instructions = None, b_cookingTime = None, b_servings = None,
              b_createdBy = None, b_createdAt = None\<rparr>"

definition mk_req :: "string \<Rightarrow> string \<Rightarrow> string option \<Rightarrow> body \<Rightarrow> request" where
  "mk_req m p a b =
     \<lparr>req_method = m, urlPath = p, authorization = a, q_page = None, q_limit = None,
      req_body = b, raw_body = Obj []\<rparr>"

definition tea :: recipe_doc where
  "tea = \<lparr>r_id = tea_id, title = ''Tea'', ingredients = [], instructions = ''Boil water'',
          cookingTime = None, servings = None, createdBy = Some alice_id, createdAt = 5\<rparr>"

definition sample_users :: "user_doc list" where
  "sample_users =
     [\<lparr>u_id = alice_id, u_username = ''alice'', u_password = ''$2a$secret1''\<rparr>,
      \<lparr>u_id = bob_id, u_username = ''bob'', u_password = ''$2a$hunter22''\<rparr>]"

definition sample_db :: db where
  "sample_db = \<lparr>users = sample_users, recipes = [tea]\<rparr>"

definition db25 :: db where
  "db25 = \<lparr>users = sample_users,
            recipes = map (\<lambda>n. tea\<lparr>r_id := ''r'' @ replicate n CHR ''x'', createdAt := n\<rparr>)
                          [0..<25]\<rparr>"

definition sample_menv :: menv where
  "sample_menv =
     \<lparr>m_verify = (\<lambda>t. if t = ''tokA'' then Some [(''username'', Str ''alice'')]
                        else if t = ''tokB'' then Some [(''username'', Str ''bob'')]
                        else None),
      m_sign = (\<lambda>p. ''jwt''),
      m_now = ''1700000000000''\<rparr>"

definition mem_tea :: jsobj where
  "mem_tea = [(''id'', Str ''17''), (''title'', Str ''Tea''), (''ingredients'', Arr []),
              (''instructions'', Str ''Boil water''), (''createdBy'', Str ''alice'')]"

definition sample_mem :: mem where
  "sample_mem =
     \<lparr>m_users = [[(''username'', Str ''alice''), (''password'', Str ''secret1'')],
                 [(''username'', Str ''bob''), (''password'', Str ''hunter22'')]],
      m_recipes = [mem_tea]\<rparr>"

definition sample_recipes_s :: "recipe_s list" where
  "sample_recipes_s =
     [\<lparr>s_id = tea_id, s_title = Some ''Tea'', s_ingredients = [],
       s_instructions = Some ''Boil water'', s_createdBy = Some alice_id\<rparr>,
      \<lparr>s_id = none_id, s_title = Some ''Toast'', s_ingredients = [],
       s_instructions = Some ''Toast bread'', s_createdBy = Some bob_id\<rparr>]"

section \<open>Properties\<close>

subsection \<open>Routing and queries\<close>

lemma split_on_no_sep: "c \<notin> set s \<Longrightarrow> split_on c s = [s]"
  by (induction s) (auto split: list.splits)

lemma path_id_recipes: "CHR ''/'' \<notin> set i \<Longrightarrow> path_id (''/api/recipes/'' @ i) = Some i"
  by (simp add: path_id_def split_on_no_sep numeral_3_eq_3)

lemma route_put:
  "req_method req = ''PUT'' \<Longrightarrow> urlPath req = ''/api/recipes/'' @ i \<Longrightarrow>
   handler e d req = updateRecipe e d req"
  by (simp add: handler_def)

lemma route_delete:
  "req_method req = ''DELETE'' \<Longrightarrow> urlPath req = ''/api/recipes/'' @ i \<Longrightarrow>
   handler e d req = deleteRecipe e d req"
  by (simp add: handler_def)

lemma express_auth_ok:
  "authenticateToken e req = Inr user \<Longrightarrow> authenticateToken_express e req next d = next user d"
  by (auto simp: authenticateToken_def authenticateToken_express_def
           split: option.splits if_splits)

subsection \<open>Requests that leave the store alone\<close>

lemma updateRecipe_unchanged:
  "status (snd (updateRecipe e d req)) \<noteq> 200 \<Longrightarrow> fst (updateRecipe e d req) = d"
  by (auto simp: updateRecipe_def on_error_def reply_def
           split: sum.splits option.splits if_splits bool.splits prod.splits)

lemma deleteRecipe_unchanged:
  "status (snd (deleteRecipe e d req)) \<noteq> 200 \<Longrightarrow> fst (deleteRecipe e d req) = d"
  by (auto simp: deleteRecipe_def on_error_def reply_def
           split: sum.splits option.splits if_splits bool.splits prod.splits)

lemma register_unchanged:
  "status (snd (register e d req)) \<noteq> 201 \<Longrightarrow> fst (register e d req) = d"
  by (auto simp: register_def reply_def Let_def split: option.splits if_splits)

lemma login_unchanged: "fst (login e d req) = d"
  by (simp add: login_def Let_def split: option.splits if_splits)

lemma getRecipes_unchanged: "fst (getRecipes e d req) = d"
  by (simp add: getRecipes_def Let_def split: option.splits)

lemma getRecipe_unchanged: "fst (getRecipe e d req) = d"
  by (simp add: getRecipe_def split: option.splits sum.splits)

lemma createRecipe_unchanged:
  "status (snd (createRecipe e d req)) \<noteq> 201 \<Longrightarrow> fst (createRecipe e d req) = d"
  by (auto simp: createRecipe_def reply_def Let_def split: sum.splits if_splits)

lemma handler_unchanged:
  "status (snd (handler e d req)) \<notin> {200, 201} \<Longrightarrow> fst (handler e d req) = d"
  unfolding handler_def
  by (auto simp: updateRecipe_unchanged deleteRecipe_unchanged register_unchanged
        login_unchanged getRecipes_unchanged getRecipe_unchanged createRecipe_unchanged
      split: if_splits)

lemma put_recipe_unchanged:
  "status (snd (put_recipe e req i user d)) \<noteq> 200 \<Longrightarrow> fst (put_recipe e req i user d) = d"
  by (auto simp: put_recipe_def on_error_express_def reply_def
           split: sum.splits option.splits if_splits bool.splits prod.splits)

lemma delete_recipe_unchanged:
  "status (snd (delete_recipe e req i user d)) \<noteq> 200 \<Longrightarrow>
   fst (delete_recipe e req i user d) = d"
  by (auto simp: delete_recipe_def on_error_express_def reply_def
           split: sum.splits option.splits if_splits bool.splits prod.splits)

lemma express_auth_unchanged:
  assumes "\<And>user. status (snd (next user d)) \<noteq> 200 \<Longrightarrow> fst (next user d) = d"
      and "status (snd (authenticateToken_express e req next d)) \<noteq> 200"
  shows "fst (authenticateToken_express e req next d) = d"
  using assms
  by (auto simp: authenticateToken_express_def split: option.splits if_splits)

lemma mem_put_unchanged:
  "fst (snd (mem_put_recipe i b user s)) \<noteq> 200 \<Longrightarrow> fst (mem_put_recipe i b user s) = s"
  by (auto simp: mem_put_recipe_def Let_def split: option.splits if_splits)

lemma mem_delete_unchanged:
  "fst (snd (mem_delete_recipe i user s)) \<noteq> 204 \<Longrightarrow> fst (mem_delete_recipe i user s) = s"
  by (auto simp: mem_delete_recipe_def split: option.splits if_splits)

lemma mem_auth_unchanged:
  assumes "\<And>user. fst (snd (next user s)) \<in> {403, 404} \<Longrightarrow> fst (next user s) = s"
      and "fst (snd (authenticateToken_mem e h next s)) \<in> {403, 404}"
  shows "fst (authenticateToken_mem e h next s) = s"
  using assms
  by (auto simp: authenticateToken_mem_def split: option.splits if_splits)

subsection \<open>Evaluating the handlers on the sample data\<close>

lemmas sample_defs =
  sample_env_def sample_db_def sample_users_def tea_def mk_req_def no_body_def
  alice_id_def bob_id_def tea_id_def none_id_def sample_menv_def sample_mem_def mem_tea_def
  sample_cast_def sample_update_def tea_id_upper_def

lemmas eval_defs =
  handler_def updateRecipe_def deleteRecipe_def authenticateToken_def bearer_token_def
  path_id_def findById_def not_owner_def reply_def on_error_def numeral_3_eq_3
  app_put_recipes_id_def app_delete_recipes_id_def authenticateToken_express_def
  put_recipe_def delete_recipe_def on_error_express_def
  findByIdAndUpdate_def findByIdAndDelete_def cast_error_def cast_ref_def
  mem_app_put_def mem_app_delete_def authenticateToken_mem_def mem_put_recipe_def
  mem_delete_recipe_def get_prop_def

subsection \<open>C10: a refused mutation writes nothing\<close>

text \<open>
  C10.  Whenever update or delete fails with NotFound (404) or Forbidden (403), the store
  is exactly as before the request: the set of stored recipes and every field of every
  recipe.  Shown for the main handler (for any request it answers with 403 or 404, PUT and
  DELETE among them), for the PUT and DELETE routes of the Express application over
  MongoDB, and for those of the in-memory application.
\<close>

theorem failed_mutation_leaves_store:
  "(status (snd (handler e d req)) \<in> {403, 404} \<longrightarrow> fst (handler e d req) = d)
   \<and> (status (snd (app_put_recipes_id e req i d)) \<in> {403, 404}
        \<longrightarrow> fst (app_put_recipes_id e req i d) = d)
   \<and> (status (snd (app_delete_recipes_id e req i d)) \<in> {403, 404}
        \<longrightarrow> fst (app_delete_recipes_id e req i d) = d)
   \<and> (fst (snd (mem_app_put me h mi b s)) \<in> {403, 404}
        \<longrightarrow> fst (mem_app_put me h mi b s) = s)
   \<and> (fst (snd (mem_app_delete me h mi s)) \<in> {403, 404}
        \<longrightarrow> fst (mem_app_delete me h mi s) = s)"
proof (intro conjI impI)
  assume "status (snd (handler e d req)) \<in> {403, 404}"
  then show "fst (handler e d req) = d"
    by (intro handler_unchanged) auto
next
  assume "status (snd (app_put_recipes_id e req i d)) \<in> {403, 404}"
  then show "fst (app_put_recipes_id e req i d) = d"
    unfolding app_put_recipes_id_def
    by (intro express_auth_unchanged put_recipe_unchanged) auto
next
  assume "status (snd (app_delete_recipes_id e req i d)) \<in> {403, 404}"
  then show "fst (app_delete_recipes_id e req i d) = d"
    unfolding app_delete_recipes_id_def
    by (intro express_auth_unchanged delete_recipe_unchanged) auto
next
  assume "fst (snd (mem_app_put me h mi b s)) \<in> {403, 404}"
  then show "fst (mem_app_put me h mi b s) = s"
    unfolding mem_app_put_def
    by (intro mem_auth_unchanged mem_put_unchanged) auto
next
  assume "fst (snd (mem_app_delete me h mi s)) \<in> {403, 404}"
  then show "fst (mem_app_delete me h mi s) = s"
    unfolding mem_app_delete_def
    by (intro mem_auth_unchanged mem_delete_unchanged) auto
qed


theorem failed_mutation_leaves_store_witness:
  "status (snd (handler sample_env sample_db
       (mk_req ''PUT'' (''/api/recipes/'' @ tea_id) (Some ''Bearer tokB'') no_body))) = 403
   \<and> fst (handler sample_env sample_db
       (mk_req ''PUT'' (''/api/recipes/'' @ tea_id) (Some ''Bearer tokB'') no_body)) = sample_db
   \<and> status (snd (app_put_recipes_id sample_env
       (mk_req ''PUT'' (''/api/recipes/'' @ tea_id) (Some ''Bearer tokB'') no_body)
       tea_id sample_db)) = 403
   \<and> fst (app_put_recipes_id sample_env
       (mk_req ''PUT'' (''/api/recipes/'' @ tea_id) (Some ''Bearer tokB'') no_body)
       tea_id sample_db) = sample_db
   \<and> status (snd (app_delete_recipes_id sample_env
       (mk_req ''PUT'' (''/api/recipes/'' @ tea_id) (Some ''Bearer tokB'') no_body)
       tea_id sample_db)) = 403
   \<and> fst (app_delete_recipes_id sample_env
       (mk_req ''PUT'' (''/api/recipes/'' @ tea_id) (Some ''Bearer tokB'') no_body)
       tea_id sample_db) = sample_db
   \<and> fst (snd (mem_app_put sample_menv (Some ''Bearer tokB'') ''99'' [] sample_mem)) = 404
   \<and> fst (mem_app_put sample_menv (Some ''Bearer tokB'') ''99'' [] sample_mem) = sample_mem
   \<and> fst (snd (mem_app_delete sample_menv (Some ''Bearer tokB'') ''99'' sample_mem)) = 404
   \<and> fst (mem_app_delete sample_menv (Some ''Bearer tokB'') ''99'' sample_mem) = sample_mem"
proof -
  let ?req = "mk_req ''PUT'' (''/api/recipes/'' @ tea_id) (Some ''Bearer tokB'') no_body"
  have 1: "status (snd (handler sample_env sample_db ?req)) = 403"
    by (simp add: eval_defs sample_defs)
  have 2: "status (snd (app_put_recipes_id sample_env ?req tea_id sample_db)) = 403"
    by (simp add: eval_defs sample_defs)
  have 3: "status (snd (app_delete_recipes_id sample_env ?req tea_id sample_db)) = 403"
    by (simp add: eval_defs sample_defs)
  have 4: "fst (snd (mem_app_put sample_menv (Some ''Bearer tokB'') ''99'' [] sample_mem)) = 404"
    by (simp add: eval_defs sample_defs)
  have 5: "fst (snd (mem_app_delete sample_menv (Some ''Bearer tokB'') ''99'' sample_mem)) = 404"
    by (simp add: eval_defs sample_defs)
  show ?thesis
    using 1 2 3 4 5
      failed_mutation_leaves_store [of sample_env sample_db ?req tea_id
        sample_menv "Some ''Bearer tokB''" "''99''" "[]" sample_mem]
    by simp
qed

subsection \<open>C4: the token guard is a hard gate\<close>

lemma authenticateToken_fails:
  "no_valid_token (jwt_verify e) (authorization req) \<Longrightarrow>
   authenticateToken e req =
     Inl (if bearer_token (authorization req) \<in> {None, Some []}
          then ''Access token required'' else ''Invalid token'')"
  by (auto simp: no_valid_token_def authenticateToken_def split: option.splits)

text \<open>
  C4.  A request to a bearer-protected operation whose token is missing, invalid or expired
  is rejected: with 401 by the main handler, with 401 (missing) or 403 (not verified) by the
  Express middlewares.  The answer is fixed by the header alone: the store comes back as it
  was and is not read, and the downstream handler (\<open>next\<close>) has no part in the result.
\<close>

theorem bad_token_is_rejected:
  assumes bad: "no_valid_token (jwt_verify e) (authorization req)"
      and mbad: "no_valid_token (m_verify me) h"
  shows
    "(bearer_protected req \<longrightarrow>
        handler e d req =
          (d, reply 401 (JError (if bearer_token (authorization req) \<in> {None, Some []}
                                 then ''Access token required'' else ''Invalid token''))))
     \<and> authenticateToken_express e req next d =
          (d, if bearer_token (authorization req) \<in> {None, Some []}
              then reply 401 (JError ''Access token required'')
              else reply 403 (JError ''Invalid token''))
     \<and> authenticateToken_mem me h mnext s =
          (s, if bearer_token h \<in> {None, Some []}
              then (401, MError ''No token provided'')
              else (403, MError ''Invalid token''))"
proof (intro conjI impI)
  assume p: "bearer_protected req"
  let ?msg = "if bearer_token (authorization req) \<in> {None, Some []}
              then ''Access token required'' else ''Invalid token''"
  have a: "authenticateToken e req = Inl ?msg"
    using bad by (rule authenticateToken_fails)
  have c: "createRecipe e d req = (d, on_error ?msg)"
          "updateRecipe e d req = (d, on_error ?msg)"
          "deleteRecipe e d req = (d, on_error ?msg)"
    by (simp_all add: createRecipe_def updateRecipe_def deleteRecipe_def a)
  have o: "on_error ?msg = reply 401 (JError ?msg)"
    by (simp add: on_error_def)
  have "handler e d req = (d, on_error ?msg)"
    using p unfolding bearer_protected_def handler_def
    by (auto simp: c)
  then show "handler e d req = (d, reply 401 (JError ?msg))"
    by (simp only: o)
next
  show "authenticateToken_express e req next d =
          (d, if bearer_token (authorization req) \<in> {None, Some []}
              then reply 401 (JError ''Access token required'')
              else reply 403 (JError ''Invalid token''))"
    using bad
    by (auto simp: no_valid_token_def authenticateToken_express_def split: option.splits)
next
  show "authenticateToken_mem me h mnext s =
          (s, if bearer_token h \<in> {None, Some []}
              then (401, MError ''No token provided'')
              else (403, MError ''Invalid token''))"
    using mbad
    by (auto simp: no_valid_token_def authenticateToken_mem_def split: option.splits)
qed

theorem bad_token_is_rejected_witness:
  "handler sample_env sample_db
     (mk_req ''DELETE'' (''/api/recipes/'' @ tea_id) None no_body)
     = (sample_db, reply 401 (JError ''Access token required''))
   \<and> handler sample_env sample_db
     (mk_req ''POST'' ''/api/recipes'' (Some ''Bearer expired'') no_body)
     = (sample_db, reply 401 (JError ''Invalid token''))
   \<and> app_put_recipes_id sample_env
     (mk_req ''PUT'' ''/recipes'' (Some ''Bearer expired'') no_body) tea_id sample_db
     = (sample_db, reply 403 (JError ''Invalid token''))
   \<and> mem_app_delete sample_menv (Some ''Bearer'') ''17'' sample_mem
     = (sample_mem, (401, MError ''No token provided''))"
proof -
  let ?r1 = "mk_req ''DELETE'' (''/api/recipes/'' @ tea_id) None no_body"
  let ?r2 = "mk_req ''POST'' ''/api/recipes'' (Some ''Bearer expired'') no_body"
  let ?r3 = "mk_req ''PUT'' ''/recipes'' (Some ''Bearer expired'') no_body"
  have b: "no_valid_token (jwt_verify sample_env) (authorization ?r1)"
          "no_valid_token (jwt_verify sample_env) (authorization ?r2)"
          "no_valid_token (jwt_verify sample_env) (authorization ?r3)"
          "no_valid_token (m_verify sample_menv) (Some ''Bearer'')"
    by (simp_all add: no_valid_token_def bearer_token_def sample_defs)
  have p: "bearer_protected ?r1" "bearer_protected ?r2"
    by (simp_all add: bearer_protected_def mk_req_def)
  have t: "bearer_token (authorization ?r1) = None"
          "bearer_token (authorization ?r2) = Some ''expired''"
          "bearer_token (authorization ?r3) = Some ''expired''"
          "bearer_token (Some ''Bearer'') = None"
    by (simp_all add: bearer_token_def mk_req_def)
  show ?thesis
    using bad_token_is_rejected [OF b(1) b(4), of sample_db]
          bad_token_is_rejected [OF b(2) b(4), of sample_db]
          bad_token_is_rejected [OF b(3) b(4), of sample_db "put_recipe sample_env ?r3 tea_id"
                                   "mem_delete_recipe ''17''" sample_mem]
          p t
    by (simp add: app_put_recipes_id_def mem_app_delete_def)
qed

subsection \<open>C8: listing is paginated, newest first\<close>

lemma ceil_div_ceiling: "ceil_div a b = \<lceil>real_of_int a / real_of_int b\<rceil>"
  by (simp add: ceil_div_def ceiling_divide_eq_div)

lemma sort_desc_newest_first: "newest_first (map (populate us) (sort_desc rs))"
proof -
  have "sorted (map (\<lambda>r. - int (createdAt r)) (sort_desc rs))"
    unfolding sort_desc_def by (rule sorted_sort_key)
  then have "sorted_wrt (\<lambda>a b. createdAt b \<le> createdAt a) (sort_desc rs)"
    by (simp add: sorted_wrt_map)
  then show ?thesis
    by (simp add: newest_first_def sorted_wrt_map populate_def)
qed

lemma newest_first_page: "newest_first xs \<Longrightarrow> newest_first (take n (drop k xs))"
  unfolding newest_first_def by (intro sorted_wrt_take sorted_wrt_drop)

lemma or_default_nonneg:
  "(case q of None \<Rightarrow> True | Some n \<Rightarrow> 0 \<le> n) \<Longrightarrow> 0 < dflt \<Longrightarrow> 0 < or_default q dflt"
  by (auto simp: or_default_def split: option.splits)

lemma route_list:
  "req_method req = ''GET'' \<Longrightarrow> urlPath req = ''/api/recipes'' \<Longrightarrow>
   handler e d req = getRecipes e d req"
  by (simp add: handler_def)

lemma getRecipes_ok:
  assumes "query_ok req"
  shows "getRecipes e d req =
     (d, reply 200
           (JRecipes
              (take (nat (or_default (q_limit req) 10))
                 (drop (nat ((or_default (q_page req) 1 - 1) * or_default (q_limit req) 10))
                    (map (populate (users d)) (sort_desc (recipes d)))))
              (or_default (q_page req) 1) (or_default (q_limit req) 10)
              (int (length (recipes d)))
              (ceil_div (int (length (recipes d))) (or_default (q_limit req) 10))))"
proof -
  have p: "0 < or_default (q_page req) 1" and l: "0 < or_default (q_limit req) 10"
    using assms by (auto simp: query_ok_def intro: or_default_nonneg)
  then have "0 \<le> (or_default (q_page req) 1 - 1) * or_default (q_limit req) 10"
    by simp
  then show ?thesis
    using l by (simp add: getRecipes_def skip_limit_def Let_def)
qed

text \<open>
  C8.  A list request (GET \<^verbatim>\<open>/api/recipes\<close> of the main handler, page and limit not
  negative) returns the recipes in descending creation-time order; page defaults to 1 and
  limit to 10; \<^verbatim>\<open>pages\<close> is the ceiling of total / limit; and with 25 stored recipes and
  limit 10 there are 3 pages, page 3 has 5 items, and total is 25.
\<close>

theorem list_pagination:
  assumes get: "req_method req = ''GET''" "urlPath req = ''/api/recipes''"
      and q: "query_ok req"
      and page: "page = or_default (q_page req) 1"
      and limit: "limit = or_default (q_limit req) 10"
      and count: "count = int (length (recipes d))"
      and items: "items = take (nat limit) (drop (nat ((page - 1) * limit))
                            (map (populate (users d)) (sort_desc (recipes d))))"
  shows
    "handler e d req =
       (d, reply 200 (JRecipes items page limit count \<lceil>real_of_int count / real_of_int limit\<rceil>))
     \<and> newest_first items
     \<and> (q_page req = None \<longrightarrow> page = 1)
     \<and> (q_limit req = None \<longrightarrow> limit = 10)
     \<and> (count = 25 \<and> limit = 10 \<longrightarrow>
          \<lceil>real_of_int count / real_of_int limit\<rceil> = 3 \<and> (page = 3 \<longrightarrow> length items = 5))"
proof (intro conjI impI)
  show "handler e d req =
       (d, reply 200 (JRecipes items page limit count \<lceil>real_of_int count / real_of_int limit\<rceil>))"
    unfolding route_list [OF get] getRecipes_ok [OF q] page limit count items ceil_div_ceiling ..
  show "newest_first items"
    unfolding items by (intro newest_first_page sort_desc_newest_first)
  show "page = 1" if "q_page req = None"
    using that by (simp add: page or_default_def)
  show "limit = 10" if "q_limit req = None"
    using that by (simp add: limit or_default_def)
  show "\<lceil>real_of_int count / real_of_int limit\<rceil> = 3" if "count = 25 \<and> limit = 10"
    using that by simp
  show "length items = 5" if "count = 25 \<and> limit = 10" "page = 3"
  proof -
    have "length (recipes d) = 25"
      using that(1) count by simp
    then show ?thesis
      using that by (simp add: items sort_desc_def)
  qed
qed

theorem list_pagination_witness:
  "handler sample_env db25 ((mk_req ''GET'' ''/api/recipes'' None no_body)\<lparr>q_page := Some 3\<rparr>)
     = (db25, reply 200
          (JRecipes (take 10 (drop 20 (map (populate (users db25)) (sort_desc (recipes db25)))))
             3 10 25 3))
   \<and> length (take 10 (drop 20 (map (populate (users db25)) (sort_desc (recipes db25))))) = 5
   \<and> newest_first (take 10 (drop 20 (map (populate (users db25)) (sort_desc (recipes db25)))))
   \<and> handler sample_env db25 (mk_req ''GET'' ''/api/recipes'' None no_body)
     = (db25, reply 200
          (JRecipes (take 10 (drop 0 (map (populate (users db25)) (sort_desc (recipes db25)))))
             1 10 25 3))"
proof -
  let ?r = "mk_req ''GET'' ''/api/recipes'' None no_body"
  let ?r2 = "?r\<lparr>q_page := Some 3\<rparr>"
  have g: "req_method ?r2 = ''GET''" "urlPath ?r2 = ''/api/recipes''" "query_ok ?r2"
          "req_method ?r = ''GET''" "urlPath ?r = ''/api/recipes''" "query_ok ?r"
    by (simp_all add: mk_req_def query_ok_def)
  have v: "or_default (q_page ?r2) 1 = 3" "or_default (q_limit ?r2) 10 = 10"
          "or_default (q_page ?r) 1 = 1" "or_default (q_limit ?r) 10 = 10"
    by (simp_all add: mk_req_def or_default_def)
  have n: "int (length (recipes db25)) = 25"
    by (simp add: db25_def)
  have q: "q_page ?r = None" "q_limit ?r = None" "q_limit ?r2 = None"
    by (simp_all add: mk_req_def)
  note t2 = list_pagination [OF g(1,2,3) v(1) [symmetric] v(2) [symmetric] n [symmetric] refl,
              of sample_env]
  note t1 = list_pagination [OF g(4,5,6) v(3) [symmetric] v(4) [symmetric] n [symmetric] refl,
              of sample_env]
  have a: "handler sample_env db25 ?r2
     = (db25, reply 200
          (JRecipes (take 10 (drop 20 (map (populate (users db25)) (sort_desc (recipes db25)))))
             3 10 25 3))"
    using t2 by simp
  have b: "length (take 10 (drop 20 (map (populate (users db25)) (sort_desc (recipes db25))))) = 5"
    using t2 by simp
  have c: "newest_first (take 10 (drop 20 (map (populate (users db25)) (sort_desc (recipes db25)))))"
    using t2 by simp
  have d: "handler sample_env db25 ?r
     = (db25, reply 200
          (JRecipes (take 10 (drop 0 (map (populate (users db25)) (sort_desc (recipes db25)))))
             1 10 25 3))"
    using t1 q by simp
  show ?thesis
    using a b c d by blast
qed

subsection \<open>C5: who may read\<close>

lemma getRecipes_public: "getRecipes e d (req\<lparr>authorization := h\<rparr>) = getRecipes e d req"
  by (simp add: getRecipes_def)

lemma getRecipe_public: "getRecipe e d (req\<lparr>authorization := h\<rparr>) = getRecipe e d req"
  by (simp add: getRecipe_def)

lemma handler_get_public:
  "req_method req = ''GET'' \<Longrightarrow> handler e d (req\<lparr>authorization := h\<rparr>) = handler e d req"
  by (simp add: handler_def getRecipes_public getRecipe_public)

lemma populate_fst: "map fst (map (populate us) rs) = rs"
  by (induction rs) (simp_all add: populate_def)

lemma recipes_handler_rejects:
  "no_valid_token (jwt_verify e) (authorization req) \<Longrightarrow>
   recipes_handler e rs req = (rs, 401, SError ''Unauthorized'')"
  by (auto simp: no_valid_token_def bearer_token_def recipes_handler_def
           split: option.splits if_splits)

lemma recipes_handler_get:
  "authenticateToken e req = Inr user \<Longrightarrow> req_method req = ''GET'' \<Longrightarrow>
   recipes_handler e rs req = (rs, 200, SRecipes (filter (\<lambda>r. s_createdBy r = p_id user) rs))"
  by (auto simp: authenticateToken_def bearer_token_def recipes_handler_def
           split: option.splits if_splits)

text \<open>
  C5, amended.  In the main handler listing recipes and reading a recipe by id are public:
  the result of a GET request does not depend on the Authorization header, no token is
  required, and the listing covers the recipes of all users (a page that is large enough
  holds every stored recipe, and \<^verbatim>\<open>total\<close> counts them all).  The single-function handler
  \<^verbatim>\<open>api/recipes.js\<close> is bearer-protected instead: without a valid token it answers 401, and
  with one its GET returns the recipes whose \<^verbatim>\<open>createdBy\<close> is the \<^verbatim>\<open>id\<close> of the token.
\<close>

theorem reads_public_in_main_handler:
  "(req_method req = ''GET'' \<longrightarrow>
      handler e d (req\<lparr>authorization := h\<rparr>) = handler e d req)
   \<and> (req_method req = ''GET'' \<and> urlPath req = ''/api/recipes'' \<and> q_page req = None
       \<and> q_limit req = Some n \<and> int (length (recipes d)) \<le> n \<and> 0 < n \<longrightarrow>
      handler e d req =
        (d, reply 200 (JRecipes (map (populate (users d)) (sort_desc (recipes d))) 1 n
                         (int (length (recipes d))) (ceil_div (int (length (recipes d))) n)))
      \<and> set (map fst (map (populate (users d)) (sort_desc (recipes d)))) = set (recipes d))
   \<and> (no_valid_token (jwt_verify e) (authorization req) \<longrightarrow>
      recipes_handler e rs req = (rs, 401, SError ''Unauthorized''))
   \<and> (authenticateToken e req = Inr user \<and> req_method req = ''GET'' \<longrightarrow>
      recipes_handler e rs req
        = (rs, 200, SRecipes (filter (\<lambda>r. s_createdBy r = p_id user) rs)))"
proof (intro conjI impI)
  assume "req_method req = ''GET''"
  then show "handler e d (req\<lparr>authorization := h\<rparr>) = handler e d req"
    by (rule handler_get_public)
next
  assume a: "req_method req = ''GET'' \<and> urlPath req = ''/api/recipes'' \<and> q_page req = None
       \<and> q_limit req = Some n \<and> int (length (recipes d)) \<le> n \<and> 0 < n"
  then have q: "query_ok req"
    by (simp add: query_ok_def)
  have v: "or_default (q_page req) 1 = 1" "or_default (q_limit req) 10 = n"
    using a by (simp_all add: or_default_def)
  have "length (map (populate (users d)) (sort_desc (recipes d))) \<le> nat n"
    using a by (simp add: sort_desc_def) linarith
  then have t: "take (nat n) (map (populate (users d)) (sort_desc (recipes d)))
             = map (populate (users d)) (sort_desc (recipes d))"
    by (rule take_all)
  show "handler e d req =
        (d, reply 200 (JRecipes (map (populate (users d)) (sort_desc (recipes d))) 1 n
                         (int (length (recipes d))) (ceil_div (int (length (recipes d))) n)))"
  proof -
    have "handler e d req = getRecipes e d req"
      using a by (simp add: route_list)
    then show ?thesis
      unfolding getRecipes_ok [OF q] v by (simp add: t)
  qed
  show "set (map fst (map (populate (users d)) (sort_desc (recipes d)))) = set (recipes d)"
    unfolding populate_fst by (simp add: sort_desc_def)
next
  assume "no_valid_token (jwt_verify e) (authorization req)"
  then show "recipes_handler e rs req = (rs, 401, SError ''Unauthorized'')"
    by (rule recipes_handler_rejects)
next
  assume "authenticateToken e req = Inr user \<and> req_method req = ''GET''"
  then show "recipes_handler e rs req
        = (rs, 200, SRecipes (filter (\<lambda>r. s_createdBy r = p_id user) rs))"
    by (simp add: recipes_handler_get)
qed

theorem reads_public_in_main_handler_witness:
  "handler sample_env sample_db (mk_req ''GET'' (''/api/recipes/'' @ tea_id) (Some ''junk'') no_body)
     = handler sample_env sample_db (mk_req ''GET'' (''/api/recipes/'' @ tea_id) None no_body)
   \<and> handler sample_env sample_db
       ((mk_req ''GET'' ''/api/recipes'' None no_body)\<lparr>q_limit := Some 5\<rparr>)
     = (sample_db, reply 200 (JRecipes (map (populate (users sample_db))
                                            (sort_desc (recipes sample_db))) 1 5 1 1))
   \<and> recipes_handler sample_env sample_recipes_s (mk_req ''GET'' ''/api/recipes'' None no_body)
     = (sample_recipes_s, 401, SError ''Unauthorized'')
   \<and> recipes_handler sample_env sample_recipes_s
       (mk_req ''GET'' ''/api/recipes'' (Some ''Bearer tokA'') no_body)
     = (sample_recipes_s, 200, SRecipes [hd sample_recipes_s])"
proof -
  let ?g = "mk_req ''GET'' (''/api/recipes/'' @ tea_id) None no_body"
  let ?l = "(mk_req ''GET'' ''/api/recipes'' None no_body)\<lparr>q_limit := Some 5\<rparr>"
  let ?n = "mk_req ''GET'' ''/api/recipes'' None no_body"
  let ?a = "mk_req ''GET'' ''/api/recipes'' (Some ''Bearer tokA'') no_body"
  let ?alice = "\<lparr>p_userId = Some alice_id, p_id = Some alice_id, p_username = Some ''alice''\<rparr>"
  have 1: "req_method ?g = ''GET''"
    by (simp add: mk_req_def)
  have e: "?g\<lparr>authorization := Some ''junk''\<rparr>
           = mk_req ''GET'' (''/api/recipes/'' @ tea_id) (Some ''junk'') no_body"
    by (simp add: mk_req_def)
  have 2: "req_method ?l = ''GET'' \<and> urlPath ?l = ''/api/recipes'' \<and> q_page ?l = None
       \<and> q_limit ?l = Some 5 \<and> int (length (recipes sample_db)) \<le> 5 \<and> (0::int) < 5"
    by (simp add: mk_req_def sample_db_def)
  have c: "ceil_div (int (length (recipes sample_db))) 5 = 1" "int (length (recipes sample_db)) = 1"
    by (simp_all add: ceil_div_def sample_db_def)
  have 3: "no_valid_token (jwt_verify sample_env) (authorization ?n)"
    by (simp add: no_valid_token_def bearer_token_def mk_req_def)
  have 4: "authenticateToken sample_env ?a = Inr ?alice \<and> req_method ?a = ''GET''"
    by (simp add: eval_defs sample_defs)
  have f: "filter (\<lambda>r. s_createdBy r = p_id ?alice) sample_recipes_s = [hd sample_recipes_s]"
    by (simp add: sample_recipes_s_def alice_id_def bob_id_def)
  have A: "handler sample_env sample_db
             (mk_req ''GET'' (''/api/recipes/'' @ tea_id) (Some ''junk'') no_body)
           = handler sample_env sample_db ?g"
    using reads_public_in_main_handler [of ?g sample_env sample_db "Some ''junk''"] 1
    unfolding e by simp
  have B: "handler sample_env sample_db ?l
     = (sample_db, reply 200 (JRecipes (map (populate (users sample_db))
                                            (sort_desc (recipes sample_db))) 1 5 1 1))"
    using reads_public_in_main_handler [of ?l sample_env sample_db _ 5] 2 c by simp
  have C: "recipes_handler sample_env sample_recipes_s ?n
     = (sample_recipes_s, 401, SError ''Unauthorized'')"
    using reads_public_in_main_handler [of ?n sample_env] 3 by simp
  have D: "recipes_handler sample_env sample_recipes_s ?a
     = (sample_recipes_s, 200, SRecipes [hd sample_recipes_s])"
    using reads_public_in_main_handler [of ?a sample_env _ _ _ sample_recipes_s ?alice] 4 f
    by simp
  show ?thesis
    using A B C D by blast
qed

text \<open>
  C5 as stated fails on \<^verbatim>\<open>api/recipes.js\<close>: the same GET is answered 401 without an
  Authorization header and 200 with Alice's token, and Alice is shown one of the two
  stored recipes, her own.
\<close>

theorem recipes_js_needs_token_counterexample:
  "recipes_handler sample_env sample_recipes_s (mk_req ''GET'' ''/api/recipes'' None no_body)
     = (sample_recipes_s, 401, SError ''Unauthorized'')
   \<and> recipes_handler sample_env sample_recipes_s
        (mk_req ''GET'' ''/api/recipes'' (Some ''Bearer tokA'') no_body)
     = (sample_recipes_s, 200,
        SRecipes [\<lparr>s_id = tea_id, s_title = Some ''Tea'', s_ingredients = [],
                    s_instructions = Some ''Boil water'', s_createdBy = Some alice_id\<rparr>])
   \<and> length sample_recipes_s = 2"
  by (simp add: recipes_handler_def sample_recipes_s_def sample_env_def mk_req_def
        alice_id_def bob_id_def Let_def)

subsection \<open>C6: what a failed login tells\<close>

text \<open>The main handler answers both failures alike.\<close>

lemma login_uniform:
  assumes "b_username (req_body req) = Some username" "username \<noteq> []"
      and "b_password (req_body req) = Some password" "password \<noteq> []"
      and "findOne_username username (users d) = None
           \<or> (\<exists>u. findOne_username username (users d) = Some u
                    \<and> \<not> bcrypt_compare e password (u_password u))"
  shows "login e d req = (d, reply 401 (JError ''Invalid credentials''))"
  using assms by (auto simp: login_def)

text \<open>
  C6.  An unknown username and a wrong password for an existing username are to give the
  same failure, so that a client cannot tell them apart.  \<^verbatim>\<open>api/auth-login.js\<close> tells them
  apart: ``nobody'' is not a user and gets 400 ``User not found'', Alice with a wrong
  password gets 401 ``Invalid password''.
\<close>

theorem login_handler_tells_unknown_user:
  "findOne_username ''nobody'' sample_users = None
   \<and> login_handler sample_env sample_users ''POST'' ''nobody'' ''secret1''
       = (400, JError ''User not found'')
   \<and> findOne_username ''alice'' sample_users
       = Some \<lparr>u_id = alice_id, u_username = ''alice'', u_password = ''$2a$secret1''\<rparr>
   \<and> login_handler sample_env sample_users ''POST'' ''alice'' ''wrong''
       = (401, JError ''Invalid password'')"
  by (simp add: login_handler_def findOne_username_def sample_users_def sample_env_def)

subsection \<open>C7 and C9: what registration stores and refuses\<close>

text \<open>The main handler stores the bcrypt hash and refuses a password shorter than 6.\<close>

lemma register_hashes:
  assumes "status (snd (register e d req)) = 201"
  shows "\<exists>username password.
           b_password (req_body req) = Some password
           \<and> users (fst (register e d req))
               = users d @ [\<lparr>u_id = new_id e, u_username = username,
                               u_password = bcrypt_hash e password 12\<rparr>]"
  using assms
  by (auto simp: register_def reply_def Let_def split: option.splits if_splits)

lemma register_weak_password:
  assumes "b_username (req_body req) = Some username" "username \<noteq> []"
      and "b_password (req_body req) = Some password" "password \<noteq> []"
      and "length password < 6"
  shows "register e d req = (d, reply 400 (JError ''Password must be at least 6 characters''))"
  using assms by (simp add: register_def)

text \<open>
  C7.  After a successful registration the stored user record is to hold only a salted
  one-way hash of the password.  The in-memory application stores the submitted password
  itself: Carol registers with ``secret1'' and the new entry of \<^verbatim>\<open>users\<close> has that string
  as its \<^verbatim>\<open>password\<close>.
\<close>

theorem mem_register_stores_clear_text:
  "mem_register sample_menv [(''username'', Str ''carol''), (''password'', Str ''secret1'')]
     sample_mem
   = (sample_mem\<lparr>m_users := m_users sample_mem
          @ [[(''username'', Str ''carol''), (''password'', Str ''secret1'')]]\<rparr>,
      (201, MToken ''jwt''))"
  by (simp add: mem_register_def get_prop_def generateToken_def sample_menv_def sample_mem_def
        Let_def)

text \<open>
  C9.  A register request with a password shorter than 6 characters is to fail with
  WeakPassword (400) and create no user.  The in-memory application and the single-function
  register handler have no such check: Carol registers with ``abc'', the answer is 201
  (200) and the user is stored.
\<close>

theorem short_password_accepted:
  "length ''abc'' < (6::nat)
   \<and> mem_register sample_menv [(''username'', Str ''carol''), (''password'', Str ''abc'')]
        sample_mem
     = (sample_mem\<lparr>m_users := m_users sample_mem
            @ [[(''username'', Str ''carol''), (''password'', Str ''abc'')]]\<rparr>,
        (201, MToken ''jwt''))
   \<and> register_handler sample_env sample_users ''POST''
        (no_body\<lparr>b_username := Some ''carol'', b_password := Some ''abc''\<rparr>)
     = (sample_users @ [\<lparr>u_id = new_id sample_env, u_username = ''carol'',
                          u_password = ''$2a$abc''\<rparr>],
        200, JMessage ''User registered'')"
  by (simp add: mem_register_def get_prop_def generateToken_def sample_menv_def sample_mem_def
        Let_def register_handler_def findOne_username_def sample_users_def sample_env_def
        no_body_def)

subsection \<open>C1: only the owner updates or deletes\<close>







lemma path_id_req:
  "urlPath req = ''/api/recipes/'' @ i \<Longrightarrow> CHR ''/'' \<notin> set i \<Longrightarrow> path_id (urlPath req) = Some i"
  using path_id_recipes by simp





subsection \<open>C2: existence is checked before ownership\<close>

lemma find_none: "ob \<notin> r_id ` set rs \<Longrightarrow> find (\<lambda>r. r_id r = ob) rs = None"
  by (auto simp: find_None_iff)

text \<open>
  C2, amended.  An update or delete request by an authenticated user whose target id is
  well-formed and names no stored recipe (no stored recipe has the ObjectId it casts to)
  fails with NotFound (404, ``Recipe not found''), whoever the user is, so the existence
  check comes before the ownership check; an id that is not well-formed is refused before
  the lookup with 400 ``Invalid recipe ID'' (by \<^verbatim>\<open>ObjectId.isValid\<close> in the main handler, by
  the \<^verbatim>\<open>CastError\<close> of \<^verbatim>\<open>findById\<close> in the Express application over MongoDB).
\<close>

theorem missing_recipe_not_found:
  assumes auth: "authenticateToken e req = Inr user"
      and path: "urlPath req = ''/api/recipes/'' @ i" "CHR ''/'' \<notin> set i"
      and meth: "req_method req = ''PUT'' \<or> req_method req = ''DELETE''"
  shows
    "(oid_valid e i \<and> oid_cast e i = Some ob \<and> ob \<notin> r_id ` set (recipes d) \<longrightarrow>
        handler e d req = (d, reply 404 (JError ''Recipe not found'')))
     \<and> (oid_cast e i = Some ob \<and> ob \<notin> r_id ` set (recipes d) \<longrightarrow>
        app_put_recipes_id e req i d = (d, reply 404 (JError ''Recipe not found''))
        \<and> app_delete_recipes_id e req i d = (d, reply 404 (JError ''Recipe not found'')))
     \<and> (\<not> oid_valid e i \<longrightarrow>
        handler e d req = (d, reply 400 (JError ''Invalid recipe ID'')))
     \<and> (oid_cast e i = None \<longrightarrow>
        app_put_recipes_id e req i d = (d, reply 400 (JError ''Invalid recipe ID''))
        \<and> app_delete_recipes_id e req i d = (d, reply 400 (JError ''Invalid recipe ID'')))"
proof -
  have h: "handler e d req = (if req_method req = ''PUT'' then updateRecipe e d req
                              else deleteRecipe e d req)"
    using meth route_put [OF _ path(1)] route_delete [OF _ path(1)] by auto
  have x: "app_put_recipes_id e req i d = put_recipe e req i user d"
          "app_delete_recipes_id e req i d = delete_recipe e req i user d"
    by (simp_all add: app_put_recipes_id_def app_delete_recipes_id_def express_auth_ok [OF auth])
  show ?thesis
  proof (intro conjI impI)
    assume a: "oid_valid e i \<and> oid_cast e i = Some ob \<and> ob \<notin> r_id ` set (recipes d)"
    then have f: "findById e i (recipes d) = Inr None"
      by (simp add: findById_def find_none)
    have "updateRecipe e d req = (d, reply 404 (JError ''Recipe not found''))"
         "deleteRecipe e d req = (d, reply 404 (JError ''Recipe not found''))"
      using a by (simp_all add: updateRecipe_def deleteRecipe_def auth path_id_req [OF path] f)
    then show "handler e d req = (d, reply 404 (JError ''Recipe not found''))"
      by (simp add: h)
  next
    assume a: "oid_cast e i = Some ob \<and> ob \<notin> r_id ` set (recipes d)"
    then have f: "findById e i (recipes d) = Inr None"
      by (simp add: findById_def find_none)
    show "app_put_recipes_id e req i d = (d, reply 404 (JError ''Recipe not found''))"
      by (simp add: x put_recipe_def f)
    show "app_delete_recipes_id e req i d = (d, reply 404 (JError ''Recipe not found''))"
      by (simp add: x delete_recipe_def f)
  next
    assume a: "\<not> oid_valid e i"
    have "updateRecipe e d req = (d, reply 400 (JError ''Invalid recipe ID''))"
         "deleteRecipe e d req = (d, reply 400 (JError ''Invalid recipe ID''))"
      using a by (simp_all add: updateRecipe_def deleteRecipe_def auth path_id_req [OF path])
    then show "handler e d req = (d, reply 400 (JError ''Invalid recipe ID''))"
      by (simp add: h)
  next
    assume a: "oid_cast e i = None"
    then have f: "findById e i (recipes d) = Inl (cast_error i)"
      by (simp add: findById_def)
    show "app_put_recipes_id e req i d = (d, reply 400 (JError ''Invalid recipe ID''))"
      by (simp add: x put_recipe_def f on_error_express_def cast_error_def)
    show "app_delete_recipes_id e req i d = (d, reply 400 (JError ''Invalid recipe ID''))"
      by (simp add: x delete_recipe_def f on_error_express_def cast_error_def)
  qed
qed

theorem missing_recipe_not_found_witness:
  "handler sample_env sample_db
     (mk_req ''DELETE'' (''/api/recipes/'' @ none_id) (Some ''Bearer tokB'') no_body)
     = (sample_db, reply 404 (JError ''Recipe not found''))
   \<and> app_put_recipes_id sample_env
     (mk_req ''DELETE'' (''/api/recipes/'' @ none_id) (Some ''Bearer tokB'') no_body)
     none_id sample_db
     = (sample_db, reply 404 (JError ''Recipe not found''))
   \<and> handler sample_env sample_db
     (mk_req ''PUT'' (''/api/recipes/'' @ ''bad'') (Some ''Bearer tokA'') no_body)
     = (sample_db, reply 400 (JError ''Invalid recipe ID''))
   \<and> app_delete_recipes_id sample_env
     (mk_req ''PUT'' (''/api/recipes/'' @ ''bad'') (Some ''Bearer tokA'') no_body)
     ''bad'' sample_db
     = (sample_db, reply 400 (JError ''Invalid recipe ID''))"
proof -
  let ?del = "mk_req ''DELETE'' (''/api/recipes/'' @ none_id) (Some ''Bearer tokB'') no_body"
  let ?put = "mk_req ''PUT'' (''/api/recipes/'' @ ''bad'') (Some ''Bearer tokA'') no_body"
  let ?alice = "\<lparr>p_userId = Some alice_id, p_id = Some alice_id, p_username = Some ''alice''\<rparr>"
  let ?bob = "\<lparr>p_userId = Some bob_id, p_id = Some bob_id, p_username = Some ''bob''\<rparr>"
  have a1: "authenticateToken sample_env ?del = Inr ?bob"
    and a1': "authenticateToken sample_env ?put = Inr ?alice"
    by (simp_all add: authenticateToken_def bearer_token_def sample_env_def mk_req_def)
  have a2: "urlPath ?del = ''/api/recipes/'' @ none_id" "urlPath ?put = ''/api/recipes/'' @ ''bad''"
    by (simp_all add: mk_req_def)
  have a3: "CHR ''/'' \<notin> set none_id" "CHR ''/'' \<notin> set ''bad''"
    by (simp_all add: none_id_def)
  have a4: "req_method ?del = ''PUT'' \<or> req_method ?del = ''DELETE''"
           "req_method ?put = ''PUT'' \<or> req_method ?put = ''DELETE''"
    by (simp_all add: mk_req_def)
  have v: "oid_valid sample_env none_id" "oid_cast sample_env none_id = Some none_id"
          "none_id \<notin> r_id ` set (recipes sample_db)"
          "\<not> oid_valid sample_env ''bad''" "oid_cast sample_env ''bad'' = None"
    by (simp_all add: sample_env_def sample_cast_def sample_db_def tea_def none_id_def tea_id_def)
  show ?thesis
    using missing_recipe_not_found [OF a1 a2(1) a3(1) a4(1), of none_id sample_db]
          missing_recipe_not_found [OF a1' a2(2) a3(2) a4(2), of none_id sample_db] v
    by simp
qed

text \<open>
  C2 as stated fails on an id that is not well-formed: it casts to no ObjectId, so it
  names no stored recipe, and the authenticated request is answered with 400, not with 404.
\<close>

theorem malformed_id_counterexample:
  "oid_cast sample_env ''bad'' = None
   \<and> authenticateToken sample_env
        (mk_req ''PUT'' ''/api/recipes/bad'' (Some ''Bearer tokA'') no_body)
       = Inr \<lparr>p_userId = Some alice_id, p_id = Some alice_id, p_username = Some ''alice''\<rparr>
   \<and> handler sample_env sample_db
        (mk_req ''PUT'' ''/api/recipes/bad'' (Some ''Bearer tokA'') no_body)
       = (sample_db, reply 400 (JError ''Invalid recipe ID''))
   \<and> status (snd (handler sample_env sample_db
        (mk_req ''PUT'' ''/api/recipes/bad'' (Some ''Bearer tokA'') no_body))) \<noteq> 404"
  by (simp add: eval_defs sample_defs)

subsection \<open>C3: who a recipe belongs to\<close>

lemma route_create:
  "req_method req = ''POST'' \<Longrightarrow> urlPath req = ''/api/recipes'' \<Longrightarrow>
   handler e d req = createRecipe e d req"
  by (simp add: handler_def)

lemma set_replace_first: "set (replace_first ob r' rs) \<subseteq> insert r' (set rs)"
  by (induction rs) auto

lemma set_remove_first: "set (remove_first ob rs) \<subseteq> set rs"
  by (induction rs) auto

lemma find_id_Some: "find (\<lambda>r. r_id r = ob) rs = Some r \<Longrightarrow> r \<in> set rs \<and> r_id r = ob"
  by (auto simp: find_Some_iff)

lemma createRecipe_ignores_createdBy:
  "createRecipe e d (req\<lparr>req_body := (req_body req)\<lparr>b_createdBy := c\<rparr>, raw_body := x\<rparr>)
   = createRecipe e d req"
proof -
  have a: "authenticateToken e (req\<lparr>req_body := (req_body req)\<lparr>b_createdBy := c\<rparr>, raw_body := x\<rparr>)
           = authenticateToken e req"
    by (simp add: authenticateToken_def)
  show ?thesis
    unfolding createRecipe_def a
    by (cases "authenticateToken e req") (simp_all split: sum.splits)
qed

lemma createRecipe_new:
  assumes "r' \<in> set (recipes (fst (createRecipe e d req)))" "r' \<notin> set (recipes d)"
  shows "\<exists>user. authenticateToken e req = Inr user
           \<and> createdBy r' = (case p_userId user of None \<Rightarrow> None | Some s \<Rightarrow> oid_cast e s)"
  using assms
  by (auto simp: createRecipe_def cast_ref_def Let_def split: sum.splits if_splits option.splits)

lemma updateRecipe_new:
  assumes "r' \<in> set (recipes (fst (updateRecipe e d req)))" "r' \<notin> set (recipes d)"
  shows "\<exists>user. authenticateToken e req = Inr user
           \<and> (\<exists>r \<in> set (recipes d). r_id r' = r_id r
                  \<and> (\<exists>cb. createdBy r = Some cb \<and> p_userId user = Some cb))"
proof (cases "authenticateToken e req")
  case (Inl msg)
  with assms show ?thesis by (simp add: updateRecipe_def)
next
  case (Inr user)
  from assms have ch: "fst (updateRecipe e d req) \<noteq> d" by auto
  from ch Inr obtain i where i: "path_id (urlPath req) = Some i"
    by (auto simp: updateRecipe_def split: option.splits)
  from ch Inr i obtain r where r: "findById e i (recipes d) = Inr (Some r)"
    by (auto simp: updateRecipe_def split: option.splits sum.splits if_splits)
  from ch Inr i r have no: "not_owner r user = Some False"
    by (auto simp: updateRecipe_def split: option.splits sum.splits if_splits bool.splits)
  then obtain cb where cb: "createdBy r = Some cb" "p_userId user = Some cb"
    by (auto simp: not_owner_def split: option.splits)
  from r obtain ob where ob: "oid_cast e i = Some ob" "find (\<lambda>r. r_id r = ob) (recipes d) = Some r"
    by (auto simp: findById_def split: option.splits)
  from ch Inr i r no obtain rs u where
    u: "findByIdAndUpdate e i (raw_body req) (recipes d) = Inr (rs, u)"
       "fst (updateRecipe e d req) = d\<lparr>recipes := rs\<rparr>"
    by (auto simp: updateRecipe_def split: option.splits sum.splits if_splits)
  from u(1) ob obtain r'' where rs: "rs = replace_first ob (r''\<lparr>r_id := ob\<rparr>) (recipes d)"
    by (auto simp: findByIdAndUpdate_def split: sum.splits)
  from assms u(2) rs have "r' = r''\<lparr>r_id := ob\<rparr>"
    using set_replace_first [of ob "r''\<lparr>r_id := ob\<rparr>" "recipes d"] by auto
  then have id: "r_id r' = r_id r"
    using find_id_Some [OF ob(2)] by simp
  have mem: "r \<in> set (recipes d)"
    using find_id_Some [OF ob(2)] by simp
  have "\<exists>r \<in> set (recipes d). r_id r' = r_id r
          \<and> (\<exists>cb. createdBy r = Some cb \<and> p_userId user = Some cb)"
    using mem id cb by blast
  with Inr show ?thesis by blast
qed

lemma deleteRecipe_subset:
  "set (recipes (fst (deleteRecipe e d req))) \<subseteq> set (recipes d)"
  using set_remove_first
  by (auto simp: deleteRecipe_def findByIdAndDelete_def
           split: sum.splits option.splits if_splits bool.splits)

text \<open>
  C3, amended.  \<^verbatim>\<open>createdBy\<close> of a new recipe is the \<^verbatim>\<open>userId\<close> of the verified token: the
  answer and the store after a create do not depend on a \<^verbatim>\<open>createdBy\<close> the client puts in
  the request body.  Afterwards it is not immutable, but only the user it names can change
  it: every recipe document in the store after a request was in the store before, field by
  field, or is the one this request created with \<^verbatim>\<open>createdBy\<close> from the token, or replaces,
  under the same id, a recipe whose \<^verbatim>\<open>createdBy\<close> is the \<^verbatim>\<open>userId\<close> of the token that sent
  this PUT.
\<close>

theorem createdBy_changes_only_by_owner:
  "(req_method req = ''POST'' \<and> urlPath req = ''/api/recipes'' \<longrightarrow>
      handler e d (req\<lparr>req_body := (req_body req)\<lparr>b_createdBy := c\<rparr>, raw_body := x\<rparr>)
      = handler e d req)
   \<and> (\<forall>r' \<in> set (recipes (fst (handler e d req))).
        r' \<in> set (recipes d)
        \<or> (\<exists>user. authenticateToken e req = Inr user
              \<and> ((req_method req = ''POST'' \<and> urlPath req = ''/api/recipes''
                   \<and> createdBy r' = (case p_userId user of None \<Rightarrow> None
                                                           | Some s \<Rightarrow> oid_cast e s))
                  \<or> (req_method req = ''PUT''
                      \<and> (\<exists>r \<in> set (recipes d). r_id r' = r_id r
                             \<and> (\<exists>cb. createdBy r = Some cb \<and> p_userId user = Some cb))))))"
proof (intro conjI impI ballI)
  assume r: "req_method req = ''POST'' \<and> urlPath req = ''/api/recipes''"
  let ?req' = "req\<lparr>req_body := (req_body req)\<lparr>b_createdBy := c\<rparr>, raw_body := x\<rparr>"
  have "handler e d ?req' = createRecipe e d ?req'"
    using r by (simp add: route_create)
  then show "handler e d ?req' = handler e d req"
    using r by (simp add: route_create createRecipe_ignores_createdBy)
next
  fix r' assume m: "r' \<in> set (recipes (fst (handler e d req)))"
  show "r' \<in> set (recipes d)
        \<or> (\<exists>user. authenticateToken e req = Inr user
              \<and> ((req_method req = ''POST'' \<and> urlPath req = ''/api/recipes''
                   \<and> createdBy r' = (case p_userId user of None \<Rightarrow> None
                                                           | Some s \<Rightarrow> oid_cast e s))
                  \<or> (req_method req = ''PUT''
                      \<and> (\<exists>r \<in> set (recipes d). r_id r' = r_id r
                             \<and> (\<exists>cb. createdBy r = Some cb \<and> p_userId user = Some cb)))))"
  proof (cases "r' \<in> set (recipes d)")
    case True
    then show ?thesis by simp
  next
    case False
    with m have ch: "fst (handler e d req) \<noteq> d" by auto
    consider (create) "req_method req = ''POST''" "urlPath req = ''/api/recipes''"
                      "handler e d req = createRecipe e d req"
      | (update) "req_method req = ''PUT''" "handler e d req = updateRecipe e d req"
      | (delete) "handler e d req = deleteRecipe e d req"
      | (register) "handler e d req = register e d req"
      using ch
      by (auto simp: handler_def login_unchanged getRecipes_unchanged getRecipe_unchanged
               split: if_splits)
    then show ?thesis
    proof cases
      case create
      then show ?thesis
        using createRecipe_new [of r' e d req] m False by auto
    next
      case update
      then show ?thesis
        using updateRecipe_new [of r' e d req] m False by auto
    next
      case delete
      then show ?thesis
        using deleteRecipe_subset [of e d req] m False by auto
    next
      case register
      then have "recipes (fst (handler e d req)) = recipes d"
        by (auto simp: register_def Let_def split: option.splits if_splits)
      then show ?thesis
        using m False by simp
    qed
  qed
qed


theorem createdBy_changes_only_by_owner_witness:
  "createdBy (last (recipes (fst (handler sample_env sample_db
      ((mk_req ''POST'' ''/api/recipes'' (Some ''Bearer tokB'')
          (no_body\<lparr>b_title := Some ''Toast'', b_instructions := Some ''Toast bread'',
                   b_createdBy := Some alice_id\<rparr>))
         \<lparr>raw_body := Obj [(''createdBy'', Str alice_id)]\<rparr>))))) = Some bob_id
   \<and> tea\<lparr>title := ''Green tea''\<rparr> \<in> set (recipes (fst (handler sample_env sample_db
      ((mk_req ''PUT'' (''/api/recipes/'' @ tea_id) (Some ''Bearer tokA'') no_body)
         \<lparr>raw_body := Obj [(''title'', Str ''Green tea'')]\<rparr>))))
   \<and> tea\<lparr>title := ''Green tea''\<rparr> \<notin> set (recipes sample_db)
   \<and> tea \<in> set (recipes sample_db)
   \<and> createdBy tea = Some alice_id"
proof -
  let ?b = "no_body\<lparr>b_title := Some ''Toast'', b_instructions := Some ''Toast bread''\<rparr>"
  let ?post = "mk_req ''POST'' ''/api/recipes'' (Some ''Bearer tokB'') ?b"
  let ?post' = "(mk_req ''POST'' ''/api/recipes'' (Some ''Bearer tokB'')
          (no_body\<lparr>b_title := Some ''Toast'', b_instructions := Some ''Toast bread'',
                   b_createdBy := Some alice_id\<rparr>))
         \<lparr>raw_body := Obj [(''createdBy'', Str alice_id)]\<rparr>"
  let ?put = "(mk_req ''PUT'' (''/api/recipes/'' @ tea_id) (Some ''Bearer tokA'') no_body)
                \<lparr>raw_body := Obj [(''title'', Str ''Green tea'')]\<rparr>"
  have r: "req_method ?post = ''POST'' \<and> urlPath ?post = ''/api/recipes''"
    by (simp add: mk_req_def)
  have e: "?post\<lparr>req_body := (req_body ?post)\<lparr>b_createdBy := Some alice_id\<rparr>,
                 raw_body := Obj [(''createdBy'', Str alice_id)]\<rparr> = ?post'"
    by (simp add: mk_req_def no_body_def)
  have ev: "createdBy (last (recipes (fst (handler sample_env sample_db ?post)))) = Some bob_id"
    by (simp add: eval_defs createRecipe_def truthy_def sample_defs Let_def)
  have m: "tea\<lparr>title := ''Green tea''\<rparr> \<in> set (recipes (fst (handler sample_env sample_db ?put)))"
    by (simp add: eval_defs sample_defs)
  have n: "tea\<lparr>title := ''Green tea''\<rparr> \<notin> set (recipes sample_db)"
          "tea \<in> set (recipes sample_db)" "createdBy tea = Some alice_id"
    by (simp_all add: sample_db_def tea_def)
  note t1 = createdBy_changes_only_by_owner
              [where req = ?post and e = sample_env and d = sample_db and c = "Some alice_id"
                 and x = "Obj [(''createdBy'', Str alice_id)]"]
  note t2 = createdBy_changes_only_by_owner
              [where req = ?put and e = sample_env and d = sample_db]
  have 1: "handler sample_env sample_db ?post' = handler sample_env sample_db ?post"
    using t1 r unfolding e by blast
  have 2: "tea\<lparr>title := ''Green tea''\<rparr> \<in> set (recipes sample_db)
           \<or> (\<exists>user. authenticateToken sample_env ?put = Inr user
                \<and> ((req_method ?put = ''POST'' \<and> urlPath ?put = ''/api/recipes''
                     \<and> createdBy (tea\<lparr>title := ''Green tea''\<rparr>)
                        = (case p_userId user of None \<Rightarrow> None
                                                | Some s \<Rightarrow> oid_cast sample_env s))
                    \<or> (req_method ?put = ''PUT''
                        \<and> (\<exists>r \<in> set (recipes sample_db).
                               r_id (tea\<lparr>title := ''Green tea''\<rparr>) = r_id r
                               \<and> (\<exists>cb. createdBy r = Some cb \<and> p_userId user = Some cb)))))"
    using t2 m by blast
  show ?thesis
    using 1 2 ev m n by simp
qed

text \<open>
  C3 as stated fails: the update passes the whole body to \<^verbatim>\<open>findByIdAndUpdate\<close>, so the
  owner who sends a \<^verbatim>\<open>createdBy\<close> changes it.  Alice hands her recipe to Bob.
\<close>

theorem owner_rewrites_createdBy_counterexample:
  "createdBy tea = Some alice_id
   \<and> recipes sample_db = [tea]
   \<and> handler sample_env sample_db
        ((mk_req ''PUT'' (''/api/recipes/'' @ tea_id) (Some ''Bearer tokA'') no_body)
           \<lparr>raw_body := Obj [(''createdBy'', Str bob_id)]\<rparr>)
       = (sample_db\<lparr>recipes := [tea\<lparr>createdBy := Some bob_id\<rparr>]\<rparr>,
          reply 200 (JRecipeMsg ''Recipe updated successfully''
                       (Some (tea\<lparr>createdBy := Some bob_id\<rparr>))))
   \<and> Some bob_id \<noteq> Some alice_id"
  by (simp add: eval_defs sample_defs)

end
